theory Spec2Isabelle
  imports Main "HOL-Library.Sublist"
begin

section \<open>Python strings\<close>

text \<open>
  The crawler (\<^verbatim>\<open>ipeds_crawler.py\<close>) works on Python \<^verbatim>\<open>str\<close> values. They are
  modelled as \<^typ>\<open>string\<close>; the text handled by the claims below is ASCII, and the
  two non-ASCII characters of the source's literals are written as their UTF-8 bytes.
  Python's \<^verbatim>\<open>a in b\<close> on strings is \<^const>\<open>sublist\<close> (a contiguous sublist).
\<close>

definition lower_char :: "char \<Rightarrow> char" where
  "lower_char c =
     (case map_of (zip ''ABCDEFGHIJKLMNOPQRSTUVWXYZ'' ''abcdefghijklmnopqrstuvwxyz'') c of
        Some d \<Rightarrow> d
      | None \<Rightarrow> c)"

definition lower :: "string \<Rightarrow> string" where
  \<comment> \<open>\<^verbatim>\<open>str.lower()\<close> on ASCII text: the letters A to Z are folded, every other
      character is kept, where Python also folds the letters outside ASCII\<close>
  "lower s = map lower_char s"

definition is_space :: "char \<Rightarrow> bool" where
  \<comment> \<open>the ASCII characters that \<^verbatim>\<open>str.strip()\<close> removes; Python also removes the
      white space outside ASCII\<close>
  "is_space c =
     (c \<in> set [CHR 0x09, CHR 0x0A, CHR 0x0B, CHR 0x0C, CHR 0x0D,
                CHR 0x1C, CHR 0x1D, CHR 0x1E, CHR 0x1F, CHR 0x20])"

definition strip :: "string \<Rightarrow> string" where
  \<comment> \<open>\<^verbatim>\<open>str.strip()\<close>\<close>
  "strip s = rev (dropWhile is_space (rev (dropWhile is_space s)))"

fun join :: "string \<Rightarrow> string list \<Rightarrow> string" where
  \<comment> \<open>\<^verbatim>\<open>sep.join(parts)\<close>\<close>
  "join sep [] = []"
| "join sep [x] = x"
| "join sep (x # y # ys) = x @ sep @ join sep (y # ys)"

definition digit_char :: "nat \<Rightarrow> char" where
  "digit_char d = ''0123456789'' ! d"

fun str_of_nat :: "nat \<Rightarrow> string" where
  \<comment> \<open>the decimal numeral an f-string prints for a non-negative \<^verbatim>\<open>int\<close>\<close>
  "str_of_nat n =
     (if n < 10 then [digit_char n] else str_of_nat (n div 10) @ [digit_char (n mod 10)])"

declare str_of_nat.simps [simp del]

definition is_digit :: "char \<Rightarrow> bool" where
  "is_digit c = (c \<in> set ''0123456789'')"

section \<open>The page as the crawler reads it\<close>

text \<open>
  The functions read a loaded page through Selenium. The model is a snapshot of what
  those reads return: a cell has a tag, its visible text and the \<^verbatim>\<open>alt\<close> attributes
  of the images inside it (\<open>None\<close> where \<^verbatim>\<open>get_attribute("alt")\<close> returns
  \<^verbatim>\<open>None\<close>); a row has its \<^verbatim>\<open>class\<close> attribute and its cells; a table has its
  \<^verbatim>\<open>class\<close> attribute, its visible text, its captions, an optional \<^verbatim>\<open>thead\<close>
  (\<open>None\<close> where \<^verbatim>\<open>find_element(By.TAG_NAME, "thead")\<close> raises
  \<^verbatim>\<open>NoSuchElementException\<close>), the rows outside the \<^verbatim>\<open>thead\<close>, the text of an
  embedded \<^verbatim>\<open>svg/title\<close> and its vertical position (\<open>None\<close> where the script
  call raises). Reads of a snapshot do not fail otherwise.
\<close>

datatype tag = TH | TD

record cell =
  cell_tag :: tag
  cell_text :: string
  cell_imgs :: "string option list"

record row =
  row_class :: "string option"
  row_cells :: "cell list"

record table =
  tbl_class :: "string option"
  tbl_text :: string
  tbl_captions :: "string list"
  tbl_thead :: "row list option"
  tbl_body :: "row list"
  tbl_svg_title :: "string option"
  tbl_y :: "int option"

definition find_cells :: "tag \<Rightarrow> row \<Rightarrow> cell list" where
  \<comment> \<open>\<^verbatim>\<open>row.find_elements(By.TAG_NAME, "th")\<close> and \<^verbatim>\<open>"td"\<close>\<close>
  "find_cells t r = filter (\<lambda>c. cell_tag c = t) (row_cells r)"

definition find_tr :: "table \<Rightarrow> row list" where
  \<comment> \<open>\<^verbatim>\<open>table_element.find_elements(By.TAG_NAME, "tr")\<close>: every row in document
      order, those of the \<^verbatim>\<open>thead\<close> first\<close>
  "find_tr t = (case tbl_thead t of None \<Rightarrow> [] | Some thead_rows \<Rightarrow> thead_rows) @ tbl_body t"

definition or_empty :: "string option \<Rightarrow> string" where
  \<comment> \<open>\<^verbatim>\<open>x or ""\<close> on an attribute value\<close>
  "or_empty a = (case a of None \<Rightarrow> [] | Some s \<Rightarrow> s)"

text \<open>The dictionaries appended to \<^verbatim>\<open>worker_all_data_list\<close>.\<close>

record entry =
  Category :: string
  Value :: string
  Section :: string
  Source :: string

section \<open>HeaderInference\<close>

definition header_labels :: "string \<Rightarrow> cell list \<Rightarrow> string list" where
  \<comment> \<open>\<^verbatim>\<open>[cell.text.strip() if cell.text.strip() else f"{prefix}{i+1}" for i, cell in enumerate(cells)]\<close>\<close>
  "header_labels pfx cells =
     map (\<lambda>(i, c). if strip (cell_text c) \<noteq> [] then strip (cell_text c)
                     else pfx @ str_of_nat (i + 1))
         (enumerate 0 cells)"

definition thead_headers :: "table \<Rightarrow> (string list \<times> nat) option" where
  \<comment> \<open>lines 55--76, attempt 1; \<open>None\<close> where the attempt returns nothing and control
      reaches attempt 2\<close>
  "thead_headers table_element =
     (case tbl_thead table_element of
        None \<Rightarrow> None
      | Some thead_rows \<Rightarrow>
          if thead_rows = [] then None
          else
            let ths = find_cells TH (last thead_rows);
                header_cells_in_thead =
                  (if ths = [] then find_cells TD (last thead_rows) else ths)
            in if header_cells_in_thead = [] then None
               else Some (header_labels ''HeadCol'' header_cells_in_thead, length thead_rows))"

definition get_table_headers_and_data_start_idx_static ::
  "table \<Rightarrow> row list \<Rightarrow> string list \<times> nat" where
  \<comment> \<open>lines 37--93\<close>
  "get_table_headers_and_data_start_idx_static table_element all_rows =
     (case all_rows of
        [] \<Rightarrow> ([], 0)
      | first_row # _ \<Rightarrow>
          (case thead_headers table_element of
             Some r \<Rightarrow> r
           | None \<Rightarrow>
               let first_row_th_cells = find_cells TH first_row
               in if first_row_th_cells \<noteq> [] then (header_labels ''Row1Col'' first_row_th_cells, 1)
                  else ([], 0)))"

section \<open>TextClassifier\<close>

definition keyword_match_static :: "string \<Rightarrow> string list \<Rightarrow> bool" where
  \<comment> \<open>lines 27--33\<close>
  "keyword_match_static text_to_search keywords_list =
     (if keywords_list = [] then False
      else list_all (\<lambda>keyword_item. sublist (lower keyword_item) (lower text_to_search))
             keywords_list)"

section \<open>Emitted records\<close>

definition en_dash :: string where
  \<comment> \<open>U+2013 in UTF-8\<close>
  "en_dash = [CHR 0xE2, CHR 0x80, CHR 0x93]"

definition indent_marker :: string where
  \<comment> \<open>U+21B3 in UTF-8\<close>
  "indent_marker = [CHR 0xE2, CHR 0x86, CHR 0xB3]"

definition blank_if_absent :: "string \<Rightarrow> string" where
  \<comment> \<open>\<^verbatim>\<open>v if v and v != "-" else "blank"\<close>, lines 356, 365 and 520\<close>
  "blank_if_absent v = (if v \<noteq> [] \<and> v \<noteq> ''-'' then v else ''blank'')"

definition header_entry :: "string list \<Rightarrow> string \<Rightarrow> entry" where
  \<comment> \<open>lines 978--985, the dictionary appended\<close>
  "header_entry headers section_name =
     (let first = (case headers of
                     [] \<Rightarrow> ''blank''
                   | h # _ \<Rightarrow> if strip h \<noteq> [] then strip h else ''blank'');
          rest = filter (\<lambda>h. strip h \<noteq> []) (drop 1 headers);
          joined = join ''; '' rest
      in \<lparr>Category = first,
          Value = (if joined \<noteq> [] then joined else ''blank''),
          Section = section_name,
          Source = ''Deep Table Search '' @ en_dash @ '' Table Headers''\<rparr>)"

definition emit_cached_header_row :: "string list \<Rightarrow> string \<Rightarrow> entry list \<Rightarrow> entry list" where
  \<comment> \<open>lines 972--985; the result is the list after the append\<close>
  "emit_cached_header_row headers section_name worker_all_data_list =
     worker_all_data_list @ [header_entry headers section_name]"

section \<open>DeepRowSearch\<close>

type_synonym headers_cache = "nat \<rightharpoonup> string list \<times> nat"

definition cache_get :: "headers_cache \<Rightarrow> nat \<Rightarrow> string list \<times> nat" where
  \<comment> \<open>\<^verbatim>\<open>headers_cache.get(table_index, ([], 0))\<close>\<close>
  "cache_get headers_cache table_index =
     (case headers_cache table_index of None \<Rightarrow> ([], 0) | Some hc \<Rightarrow> hc)"

definition cell_value :: "cell \<Rightarrow> string" where
  \<comment> \<open>lines 306--314: the stripped text, or the stripped \<^verbatim>\<open>alt\<close> of the first image
      when the text is empty and that \<^verbatim>\<open>alt\<close> is not blank\<close>
  "cell_value c =
     (let v = strip (cell_text c)
      in if v \<noteq> [] then v
         else (case cell_imgs c of
                 [] \<Rightarrow> v
               | a # _ \<Rightarrow> if strip (or_empty a) \<noteq> [] then strip (or_empty a) else v))"

definition col_label :: "string list \<Rightarrow> nat \<Rightarrow> string" where
  \<comment> \<open>\<^verbatim>\<open>headers[i] if i < len(headers) and headers[i] else f"Col{i}"\<close>\<close>
  "col_label headers i =
     (if i < length headers \<and> headers ! i \<noteq> [] then headers ! i else ''Col'' @ str_of_nat i)"

definition full_text :: "string list \<Rightarrow> string list \<Rightarrow> string" where
  \<comment> \<open>lines 317--320\<close>
  "full_text headers vals =
     lower (join '' '' (map (\<lambda>(i, v). col_label headers i @ '' '' @ v) (enumerate 0 vals)))"

definition simple_text :: "string list \<Rightarrow> string" where
  \<comment> \<open>line 321\<close>
  "simple_text vals = join '' '' (map lower vals)"

definition term_hit :: "string list \<Rightarrow> string list \<Rightarrow> string list \<Rightarrow> bool" where
  \<comment> \<open>lines 324--327\<close>
  "term_hit headers search_terms_list vals =
     list_ex (\<lambda>term. sublist (lower term) (full_text headers vals)
                    \<or> sublist (lower term) (simple_text vals))
             search_terms_list"

definition key_hit :: "string list \<Rightarrow> string list \<Rightarrow> string list \<Rightarrow> string list \<Rightarrow> bool" where
  \<comment> \<open>lines 330--332\<close>
  "key_hit headers search_terms_list keywords_list vals =
     (\<not> term_hit headers search_terms_list vals \<and> keywords_list \<noteq> [] \<and>
      (keyword_match_static (full_text headers vals) keywords_list
       \<or> keyword_match_static (simple_text vals) keywords_list))"

definition is_subrow :: "row \<Rightarrow> bool" where
  \<comment> \<open>\<^verbatim>\<open>"subrow" in (row.get_attribute("class") or "")\<close>\<close>
  "is_subrow r = sublist ''subrow'' (or_empty (row_class r))"

definition detail_entry :: "string \<Rightarrow> string \<Rightarrow> string list \<Rightarrow> entry" where
  \<comment> \<open>lines 356--362, for \<^verbatim>\<open>dvals[0]\<close> and \<^verbatim>\<open>dvals[1:]\<close>\<close>
  "detail_entry section_name d0 ds =
     \<lparr>Category = ''  '' @ indent_marker @ '' '' @ d0,
      Value = join ''; '' (map blank_if_absent ds),
      Section = section_name,
      Source = ''DeepSearch - Subrow Detail''\<rparr>"

definition group_entry :: "string \<Rightarrow> string \<Rightarrow> entry" where
  \<comment> \<open>lines 341--346, for \<^verbatim>\<open>vals[0]\<close>\<close>
  "group_entry section_name v0 =
     \<lparr>Category = v0, Value = [], Section = section_name,
      Source = ''DeepSearch - Subrow Group''\<rparr>"

definition normal_entry :: "string \<Rightarrow> bool \<Rightarrow> string \<Rightarrow> string list \<Rightarrow> entry" where
  \<comment> \<open>lines 365--371, for \<^verbatim>\<open>term_hit\<close>, \<^verbatim>\<open>vals[0]\<close> and \<^verbatim>\<open>vals[1:]\<close>\<close>
  "normal_entry section_name by_term v0 vs =
     \<lparr>Category = v0,
      Value = join ''; '' (map blank_if_absent vs),
      Section = section_name,
      Source = ''DeepSearch - '' @ (if by_term then ''Term'' else ''Keyword'') @ '' Match''\<rparr>"

definition detail_of :: "string \<Rightarrow> row \<Rightarrow> entry list" where
  \<comment> \<open>lines 351--362: what the inner loop appends for one row that does not end it\<close>
  "detail_of section_name det =
     (case map (\<lambda>c. strip (cell_text c)) (find_cells TD det) of
        [] \<Rightarrow> []
      | d0 # ds \<Rightarrow> [detail_entry section_name d0 ds])"

fun detail_rows :: "string \<Rightarrow> row list \<Rightarrow> entry list" where
  \<comment> \<open>lines 348--362, the loop over \<^verbatim>\<open>all_rows[idx+1:]\<close>\<close>
  "detail_rows section_name [] = []"
| "detail_rows section_name (det # rest) =
     (if is_subrow det then []
      else detail_of section_name det @ detail_rows section_name rest)"

definition row_matches :: "string list \<Rightarrow> string list \<Rightarrow> string list \<Rightarrow> row \<Rightarrow> bool" where
  \<comment> \<open>lines 301--335: the row has a \<^verbatim>\<open>td\<close> cell and \<^verbatim>\<open>term_hit or key_hit\<close> holds,
      so that the iteration reaches line 337\<close>
  "row_matches headers search_terms_list keywords_list r =
     (find_cells TD r \<noteq> [] \<and>
      (term_hit headers search_terms_list (map cell_value (find_cells TD r))
       \<or> key_hit headers search_terms_list keywords_list (map cell_value (find_cells TD r))))"

definition row_found ::
  "string list \<Rightarrow> string list \<Rightarrow> string list \<Rightarrow> string \<Rightarrow> row \<Rightarrow> row list \<Rightarrow> entry list" where
  \<comment> \<open>lines 301--371: what one iteration of the row loop appends to \<^verbatim>\<open>found\<close>, for the
      row and the rows after it\<close>
  "row_found headers search_terms_list keywords_list section_name r rest =
     (case map cell_value (find_cells TD r) of
        [] \<Rightarrow> []
      | v0 # vs \<Rightarrow>
          if \<not> (term_hit headers search_terms_list (v0 # vs)
                \<or> key_hit headers search_terms_list keywords_list (v0 # vs)) then []
          else if is_subrow r then
            group_entry section_name v0 # detail_rows section_name rest
          else
            [normal_entry section_name (term_hit headers search_terms_list (v0 # vs)) v0 vs])"

fun scan_rows ::
  "string list \<Rightarrow> nat \<Rightarrow> string list \<Rightarrow> string list \<Rightarrow> string \<Rightarrow> nat \<Rightarrow> row list \<Rightarrow> entry list" where
  \<comment> \<open>lines 296--371: \<^verbatim>\<open>for idx, row in enumerate(all_rows)\<close>, started at index 0 on
      all the rows, so that the rows still to come are \<^verbatim>\<open>all_rows[idx+1:]\<close>\<close>
  "scan_rows headers data_start_idx terms kws section_name idx [] = []"
| "scan_rows headers data_start_idx terms kws section_name idx (r # rest) =
     (if idx < data_start_idx then []
      else row_found headers terms kws section_name r rest)
     @ scan_rows headers data_start_idx terms kws section_name (Suc idx) rest"

definition row_sources :: "string set" where
  \<comment> \<open>the \<^verbatim>\<open>Source\<close> tags of the records built from table rows by DeepRowSearch\<close>
  "row_sources =
     {''DeepSearch - Subrow Group'', ''DeepSearch - Subrow Detail'',
      ''DeepSearch - Term Match'', ''DeepSearch - Keyword Match''}"

definition search_separator :: "string \<Rightarrow> entry" where
  \<comment> \<open>lines 377--382 and 956--961\<close>
  "search_separator section_name =
     \<lparr>Category = ''--- '' @ section_name @ '' - SEARCH RESULTS IN TABLE ---'',
      Value = [],
      Section = section_name,
      Source = ''Deep Table Search Section Header''\<rparr>"

definition deep_search_in_table_static ::
  "table \<Rightarrow> nat \<Rightarrow> headers_cache \<Rightarrow> string list \<Rightarrow> string list \<Rightarrow> string \<Rightarrow> entry list
     \<Rightarrow> bool \<times> entry list" where
  \<comment> \<open>lines 270--393; returns the flag and \<^verbatim>\<open>worker_all_data_list\<close> after the call. No
      read of the snapshot raises, so the \<^verbatim>\<open>except\<close> branch is not reached.\<close>
  "deep_search_in_table_static table_element table_index headers_cache search_terms_list
       keywords_list section_name worker_all_data_list =
     (let (headers, data_start_idx) = cache_get headers_cache table_index;
          all_rows = find_tr table_element
      in if all_rows = [] then (False, worker_all_data_list)
         else
           let found = scan_rows headers data_start_idx search_terms_list keywords_list
                         section_name 0 all_rows
           in if found = [] then (False, worker_all_data_list)
              else (True,
                    emit_cached_header_row headers section_name
                      (worker_all_data_list @ [search_separator section_name])
                    @ found))"

section \<open>TableRecordFormatter\<close>

definition year_pattern_match :: "string \<Rightarrow> bool" where
  \<comment> \<open>\<^verbatim>\<open>re.compile(r'^\d{4}-\d{4}$').match(s)\<close>; the \<^verbatim>\<open>$\<close> also matches before a
      final newline\<close>
  "year_pattern_match s =
     (let core = (if length s = 10 \<and> last s = CHR 0x0A then butlast s else s)
      in length core = 9 \<and> list_all is_digit (take 4 core) \<and> core ! 4 = CHR ''-''
         \<and> list_all is_digit (drop 5 core))"

definition year_parts :: "string list \<Rightarrow> string list \<Rightarrow> string list" where
  \<comment> \<open>lines 412--418: \<^verbatim>\<open>for idx, year in enumerate(year_headers, start=1)\<close>\<close>
  "year_parts year_headers r =
     concat (map (\<lambda>(idx, year).
                    if idx < length r then
                      (let val = strip (r ! idx)
                       in if val \<noteq> [] \<and> val \<noteq> ''-'' then [year @ '': '' @ val] else [])
                    else [])
                 (enumerate 1 year_headers))"

definition columnar_parts :: "string list \<Rightarrow> string list \<Rightarrow> string list" where
  \<comment> \<open>lines 454--461: \<^verbatim>\<open>for col_idx, cell in enumerate(row[1:], start=1)\<close>\<close>
  "columnar_parts headers r =
     concat (map (\<lambda>(col_idx, c).
                    let val = strip c
                    in if val = [] \<or> val = ''-'' then []
                       else [(if col_idx < length headers \<and> strip (headers ! col_idx) \<noteq> []
                              then strip (headers ! col_idx)
                              else ''Col'' @ str_of_nat col_idx)
                             @ '': '' @ val])
                 (enumerate 1 (drop 1 r)))"

definition add_table_to_data_static ::
  "string list \<Rightarrow> string list list \<Rightarrow> string \<Rightarrow> string \<Rightarrow> entry list \<Rightarrow> entry list" where
  \<comment> \<open>lines 395--469; the result is \<^verbatim>\<open>worker_all_data_list\<close> after the call. The
      parameter \<^verbatim>\<open>search_terms_list\<close> is not read by the source.\<close>
  "add_table_to_data_static headers data_rows section_name source_description
       worker_all_data_list =
     (let year_headers = filter (\<lambda>h. year_pattern_match (strip h)) (drop 1 headers)
      in if year_headers \<noteq> [] then
           worker_all_data_list @
             concat (map (\<lambda>r.
                       if r = [] \<or> length r < 2 then []
                       else
                         let parts = year_parts year_headers r
                         in if parts \<noteq> [] then
                              [\<lparr>Category = strip (r ! 0),
                                Value = join ''; '' parts,
                                Section = section_name,
                                Source = source_description @ '' (all years)''\<rparr>]
                            else [])
                     data_rows)
         else if headers = [] \<or> (length headers = 1 \<and> strip (headers ! 0) = []) then
           worker_all_data_list @
             concat (map (\<lambda>r.
                       case r of
                         [] \<Rightarrow> []
                       | label # vs \<Rightarrow>
                           [\<lparr>Category = strip label,
                             Value = join ''; ''
                                       (map strip (filter (\<lambda>v. strip v \<noteq> [] \<and> v \<noteq> ''-'') vs)),
                             Section = section_name,
                             Source = source_description\<rparr>])
                     data_rows)
         else
           worker_all_data_list @
             concat (map (\<lambda>r.
                       case r of
                         [] \<Rightarrow> []
                       | c0 # _ \<Rightarrow>
                           let parts = columnar_parts headers r
                           in if parts \<noteq> [] then
                                [\<lparr>Category = strip c0,
                                  Value = join ''; '' parts,
                                  Section = section_name,
                                  Source = source_description\<rparr>]
                              else [])
                     data_rows))"

section \<open>The full-table fallback\<close>

definition data_rows_of :: "nat \<Rightarrow> row list \<Rightarrow> string list list" where
  \<comment> \<open>lines 497--501\<close>
  "data_rows_of data_start_idx all_rows =
     map (\<lambda>r. map (\<lambda>c. strip (cell_text c)) (find_cells TD r))
         (filter (\<lambda>r. find_cells TD r \<noteq> []) (drop data_start_idx all_rows))"

definition raw_row_entry :: "nat \<Rightarrow> string \<Rightarrow> string list \<Rightarrow> entry list" where
  \<comment> \<open>lines 517--526, one iteration; \<^verbatim>\<open>row_vals[0]\<close> exists, because a row enters
      \<^verbatim>\<open>data_rows\<close> only with a cell\<close>
  "raw_row_entry index section_name row_vals =
     (case row_vals of
        [] \<Rightarrow> []
      | v0 # vs \<Rightarrow>
          let joined = join ''; '' (map blank_if_absent vs)
          in [\<lparr>Category = (if strip v0 \<noteq> [] then strip v0 else ''blank''),
               Value = (if joined \<noteq> [] then joined else ''blank''),
               Section = section_name,
               Source = ''Full Table '' @ str_of_nat (index + 1)\<rparr>])"

definition entire_table_separator :: "nat \<Rightarrow> string \<Rightarrow> entry" where
  \<comment> \<open>lines 506--511\<close>
  "entire_table_separator index section_name =
     \<lparr>Category = ''--- '' @ section_name @ '' - ENTIRE TABLE '' @ str_of_nat (index + 1)
                  @ '' CONTENT ---'',
      Value = [],
      Section = section_name,
      Source = ''Full Table '' @ str_of_nat (index + 1) @ '' (Header)''\<rparr>"

definition process_regular_table_static ::
  "table \<Rightarrow> nat \<Rightarrow> headers_cache \<Rightarrow> string \<Rightarrow> entry list \<Rightarrow> bool \<times> entry list" where
  \<comment> \<open>lines 472--534; the parameters \<^verbatim>\<open>search_terms_list\<close> and \<^verbatim>\<open>keywords_list\<close>
      are not read by the source\<close>
  "process_regular_table_static table_element index headers_cache section_name
       worker_all_data_list =
     (let (headers, data_start_idx) = cache_get headers_cache index;
          all_rows = find_tr table_element
      in if all_rows = [] then (False, worker_all_data_list)
         else
           let data_rows = data_rows_of data_start_idx all_rows
           in if data_rows = [] then (False, worker_all_data_list)
              else (True,
                    emit_cached_header_row headers section_name
                      (worker_all_data_list @ [entire_table_separator index section_name])
                    @ concat (map (raw_row_entry index section_name) data_rows)))"

section \<open>SectionLocator\<close>

text \<open>
  A section marker (an element of class \<^verbatim>\<open>tabtitles\<close>) has its text and its vertical
  position; positions are the integer pixel offsets of the specification. The page holds
  its tables and its section markers, both in document order.
\<close>

record tabtitle =
  tt_text :: string
  tt_y :: "int option"

record page =
  page_tables :: "table list"
  page_tabtitles :: "tabtitle list"

definition closer :: "int \<Rightarrow> int option \<Rightarrow> bool" where
  \<comment> \<open>\<^verbatim>\<open>0 <= dist < best_dist\<close>, with \<open>None\<close> for \<^verbatim>\<open>float('inf')\<close>\<close>
  "closer dist best_dist = (0 \<le> dist \<and> (case best_dist of None \<Rightarrow> True | Some b \<Rightarrow> dist < b))"

definition section_step ::
  "int \<Rightarrow> string list \<Rightarrow> string \<times> int option \<Rightarrow> tabtitle \<Rightarrow> string \<times> int option" where
  \<comment> \<open>lines 152--166, one iteration\<close>
  "section_step elem_y section_titles acc header =
     (let title = strip (tt_text header)
      in if title \<notin> set section_titles then acc
         else (case tt_y header of
                 None \<Rightarrow> acc
               | Some hdr_y \<Rightarrow>
                   if closer (elem_y - hdr_y) (snd acc) then (title, Some (elem_y - hdr_y))
                   else acc))"

definition determine_section_static :: "page \<Rightarrow> table \<Rightarrow> string list \<Rightarrow> string" where
  \<comment> \<open>lines 130--174\<close>
  "determine_section_static driver element section_titles =
     (case tbl_y element of
        None \<Rightarrow> ''Unknown Section (JS Error)''
      | Some elem_y \<Rightarrow>
          if section_titles = [] then ''Unknown Section (No Titles Provided)''
          else if page_tabtitles driver = [] then ''Unknown Section (No Headers On Page)''
          else fst (foldl (section_step elem_y section_titles)
                          (''Unknown Section (No Match)'', None)
                          (page_tabtitles driver)))"

section \<open>MatchOrchestrator: discovery\<close>

record match_info =
  mi_index :: nat
  mi_element :: table
  mi_match_type :: string
  mi_section :: string

definition thead_th_texts :: "table \<Rightarrow> string list" where
  \<comment> \<open>the texts of \<^verbatim>\<open>find_elements(By.CSS_SELECTOR, "thead th")\<close>\<close>
  "thead_th_texts t =
     (case tbl_thead t of
        None \<Rightarrow> []
      | Some thead_rows \<Rightarrow> map cell_text (concat (map (find_cells TH) thead_rows)))"

definition find_imgs :: "table \<Rightarrow> string option list" where
  \<comment> \<open>the \<^verbatim>\<open>alt\<close> attributes of \<^verbatim>\<open>find_elements(By.TAG_NAME, "img")\<close>\<close>
  "find_imgs t = concat (map cell_imgs (concat (map row_cells (find_tr t))))"

definition combined_searchable_text :: "table \<Rightarrow> string \<Rightarrow> string" where
  \<comment> \<open>lines 746--778\<close>
  "combined_searchable_text table_element section_name =
     (let texts_to_check =
            [lower (tbl_text table_element)]
            @ map lower (tbl_captions table_element)
            @ map lower (thead_th_texts table_element)
            @ (if section_name \<noteq> [] \<and> \<not> sublist ''Unknown Section'' section_name
               then [lower section_name] else [])
      in join '' '' (filter (\<lambda>x. x \<noteq> []) texts_to_check))"

definition table_match_reason :: "string \<Rightarrow> string list \<Rightarrow> string list \<Rightarrow> string option" where
  \<comment> \<open>lines 786--801: the reason when \<^verbatim>\<open>matched_this_table\<close> ends up true\<close>
  "table_match_reason combined search_terms_list keywords_list =
     (case find (\<lambda>term. sublist (lower term) combined) search_terms_list of
        Some term \<Rightarrow>
          Some (''exact_term '' @ [CHR 0x27] @ term @ [CHR 0x27]
                @ '' in table_text/caption/thead/section'')
      | None \<Rightarrow>
          if keywords_list \<noteq> [] \<and> keyword_match_static combined keywords_list
          then Some ''all_keywords in table_text/caption/thead/section''
          else None)"

definition find_matching_tables_step ::
  "page \<Rightarrow> string list \<Rightarrow> string list \<Rightarrow> string list \<Rightarrow> match_info list \<Rightarrow> nat \<times> table
     \<Rightarrow> match_info list" where
  \<comment> \<open>lines 739--817, one iteration\<close>
  "find_matching_tables_step driver search_terms_list keywords_list section_titles_on_page
       matching_tables_info it =
     (let i = fst it; table_element = snd it;
          section_name = determine_section_static driver table_element section_titles_on_page
      in case table_match_reason (combined_searchable_text table_element section_name)
                search_terms_list keywords_list of
           None \<Rightarrow> matching_tables_info
         | Some match_reason \<Rightarrow>
             if list_ex (\<lambda>info. mi_index info = i) matching_tables_info
             then matching_tables_info
             else matching_tables_info @
                    [\<lparr>mi_index = i, mi_element = table_element, mi_match_type = match_reason,
                      mi_section = section_name\<rparr>])"

definition find_matching_tables_static ::
  "page \<Rightarrow> table list \<Rightarrow> string list \<Rightarrow> string list \<Rightarrow> string list \<Rightarrow> match_info list" where
  \<comment> \<open>lines 733--820\<close>
  "find_matching_tables_static driver all_tables_on_page search_terms_list keywords_list
       section_titles_on_page =
     foldl (find_matching_tables_step driver search_terms_list keywords_list
              section_titles_on_page)
           [] (enumerate 0 all_tables_on_page)"

text \<open>
  The source defines \<^verbatim>\<open>find_matching_graph_tables_static\<close> twice, at line 664 and at
  line 822. Python binds the name to the later definition, which is the one
  \<^verbatim>\<open>find_and_process_tables_graphs_static\<close> calls; the earlier one is never run. Both are
  modelled, the earlier one under the name \<open>find_matching_graph_tables_static_line_664\<close>.
\<close>

definition graph_match_line_664 :: "string list \<Rightarrow> string \<Rightarrow> string option" where
  \<comment> \<open>lines 686--724: the match type recorded for a widget with this alt text, if any;
      \<^verbatim>\<open>if matched_term:\<close> is false for the empty string\<close>
  "graph_match_line_664 search_terms_list alt_text =
     (case find (\<lambda>term. sublist (lower term) alt_text) search_terms_list of
        Some (c # cs) \<Rightarrow> Some (''term_match_graph ('' @ (c # cs) @ '')'')
      | _ \<Rightarrow>
          if sublist ''%'' alt_text then Some ''percent_graph''
          else if alt_text \<noteq> [] then Some ''any_graph_with_alt''
          else None)"

definition find_matching_graph_tables_static_line_664 ::
  "page \<Rightarrow> table list \<Rightarrow> string list \<Rightarrow> string list \<Rightarrow> string list \<Rightarrow> match_info list" where
  \<comment> \<open>lines 664--730, shadowed by the definition at line 822\<close>
  "find_matching_graph_tables_static_line_664 driver all_graph_elements_on_page
       search_terms_list keywords_list section_titles_on_page =
     concat (map (\<lambda>(idx, container).
               let section_name =
                     determine_section_static driver container section_titles_on_page;
                   alt_text = lower (strip (join '' '' (map or_empty (find_imgs container))))
               in case graph_match_line_664 search_terms_list alt_text of
                    None \<Rightarrow> []
                  | Some mt \<Rightarrow>
                      [\<lparr>mi_index = idx, mi_element = container, mi_match_type = mt,
                        mi_section = section_name\<rparr>])
             (enumerate 0 all_graph_elements_on_page))"

definition graph_title_text :: "table \<Rightarrow> string" where
  \<comment> \<open>lines 831--840; a caption precedes the \<^verbatim>\<open>thead\<close> in document order\<close>
  "graph_title_text container_element =
     (let title_text =
            (case tbl_captions container_element @ thead_th_texts container_element of
               [] \<Rightarrow> []
             | x # _ \<Rightarrow> lower (strip x))
      in if title_text \<noteq> [] then title_text
         else (case tbl_svg_title container_element of
                 None \<Rightarrow> []
               | Some x \<Rightarrow> lower (strip x)))"

definition graph_alt_text :: "table \<Rightarrow> string" where
  \<comment> \<open>lines 841--844\<close>
  "graph_alt_text container_element =
     strip (concat (map (\<lambda>a. a @ '' '')
                        (filter (\<lambda>a. a \<noteq> [])
                                (map (\<lambda>x. lower (strip (or_empty x)))
                                     (find_imgs container_element)))))"

definition graph_match :: "table \<Rightarrow> string list \<Rightarrow> string list \<Rightarrow> string option" where
  \<comment> \<open>lines 849--863: the match type recorded for the widget, if any\<close>
  "graph_match container_element search_terms_list keywords_list =
     (let title_text = graph_title_text container_element;
          alt_text = graph_alt_text container_element;
          container_text = lower (strip (tbl_text container_element))
      in case find (\<lambda>term. sublist (lower term) title_text \<or> sublist (lower term) alt_text
                           \<or> sublist (lower term) container_text)
                   search_terms_list of
           Some (c # cs) \<Rightarrow> Some (''term_match_graph ('' @ (c # cs) @ '')'')
         | _ \<Rightarrow>
             if keywords_list \<noteq> [] \<and>
                (keyword_match_static container_text keywords_list
                 \<or> keyword_match_static title_text keywords_list
                 \<or> keyword_match_static alt_text keywords_list)
             then Some ''keyword_graph''
             else None)"

definition find_matching_graph_tables_static ::
  "page \<Rightarrow> table list \<Rightarrow> string list \<Rightarrow> string list \<Rightarrow> string list \<Rightarrow> match_info list" where
  \<comment> \<open>lines 822--865, the definition in force\<close>
  "find_matching_graph_tables_static driver all_graph_elements_on_page search_terms_list
       keywords_list section_titles_on_page =
     concat (map (\<lambda>(idx, container_element).
               let section_name =
                     determine_section_static driver container_element section_titles_on_page
               in case graph_match container_element search_terms_list keywords_list of
                    None \<Rightarrow> []
                  | Some mt \<Rightarrow>
                      [\<lparr>mi_index = idx, mi_element = container_element, mi_match_type = mt,
                        mi_section = section_name\<rparr>])
             (enumerate 0 all_graph_elements_on_page))"

section \<open>MatchOrchestrator: processing and fallback\<close>

text \<open>
  The emission for one graph widget (\<^verbatim>\<open>process_graph_table_static\<close>, lines 578--662)
  only appends records. No claim below is about those records, so the orchestrator takes
  that function as the parameter \<open>process_graph\<close> (widget, index, section, search terms,
  list so far, giving the list after the call), and every result holds whatever it appends.
\<close>

type_synonym graph_emitter = "table \<Rightarrow> nat \<Rightarrow> string \<Rightarrow> string list \<Rightarrow> entry list \<Rightarrow> entry list"

record query =
  q_search_terms :: "string list"
  q_keywords :: "string list"

definition process_matched_table ::
  "headers_cache \<Rightarrow> query \<Rightarrow> bool \<times> entry list \<Rightarrow> match_info \<Rightarrow> bool \<times> entry list" where
  \<comment> \<open>lines 880--902, one iteration, on \<^verbatim>\<open>(data_added, worker_all_data_list)\<close>\<close>
  "process_matched_table headers_cache processing_input acc tbl =
     (case deep_search_in_table_static (mi_element tbl) (mi_index tbl) headers_cache
             (q_search_terms processing_input) (q_keywords processing_input) (mi_section tbl)
             (snd acc) of
        (True, out) \<Rightarrow> (True, out)
      | (False, out) \<Rightarrow>
          (case process_regular_table_static (mi_element tbl) (mi_index tbl) headers_cache
                  (mi_section tbl) out of
             (True, out2) \<Rightarrow> (True, out2)
           | (False, out2) \<Rightarrow> (fst acc, out2)))"

definition process_matched_graph ::
  "graph_emitter \<Rightarrow> query \<Rightarrow> bool \<times> entry list \<Rightarrow> match_info \<Rightarrow> bool \<times> entry list" where
  \<comment> \<open>lines 904--915, one iteration\<close>
  "process_matched_graph process_graph processing_input acc g =
     (True, process_graph (mi_element g) (mi_index g) (mi_section g)
              (q_search_terms processing_input) (snd acc))"

definition process_matching_elements_static ::
  "graph_emitter \<Rightarrow> entry list \<Rightarrow> match_info list \<Rightarrow> match_info list \<Rightarrow> query \<Rightarrow> headers_cache
     \<Rightarrow> bool \<times> entry list" where
  \<comment> \<open>lines 868--917; returns \<^verbatim>\<open>data_added\<close> and the list after the call\<close>
  "process_matching_elements_static process_graph worker_all_data_list matching_tables_info
       matching_graphs_info processing_input headers_cache =
     foldl (process_matched_graph process_graph processing_input)
       (foldl (process_matched_table headers_cache processing_input)
              (False, worker_all_data_list) matching_tables_info)
       matching_graphs_info"

definition deep_fallback_step ::
  "page \<Rightarrow> query \<Rightarrow> string list \<Rightarrow> headers_cache \<Rightarrow> bool \<times> entry list \<Rightarrow> nat \<times> table
     \<Rightarrow> bool \<times> entry list" where
  \<comment> \<open>lines 934--943, one iteration, on \<^verbatim>\<open>(deep_found, worker_all_data_list)\<close>\<close>
  "deep_fallback_step driver processing_input section_titles_on_page headers_cache acc it =
     (case deep_search_in_table_static (snd it) (fst it) headers_cache
             (q_search_terms processing_input) (q_keywords processing_input)
             (determine_section_static driver (snd it) section_titles_on_page) (snd acc) of
        (True, out) \<Rightarrow> (True, out)
      | (False, out) \<Rightarrow> (fst acc, out))"

definition keyword_fallback_step ::
  "headers_cache \<Rightarrow> entry list \<Rightarrow> nat \<times> table \<times> string \<Rightarrow> entry list" where
  \<comment> \<open>lines 954--969, one iteration\<close>
  "keyword_fallback_step headers_cache worker_all_data_list kt =
     (case kt of
        (idx, tbl, sect) \<Rightarrow>
          snd (process_regular_table_static tbl idx headers_cache sect
                 (worker_all_data_list @ [search_separator sect])))"

definition handle_no_matches_static ::
  "page \<Rightarrow> entry list \<Rightarrow> table list \<Rightarrow> query \<Rightarrow> string list \<Rightarrow> headers_cache \<Rightarrow> entry list" where
  \<comment> \<open>lines 920--969; the parameter \<^verbatim>\<open>all_page_graph_elements\<close> is not read by the
      source\<close>
  "handle_no_matches_static driver worker_all_data_list all_page_tables processing_input
       section_titles_on_page headers_cache =
     (case foldl (deep_fallback_step driver processing_input section_titles_on_page
                    headers_cache)
                 (False, worker_all_data_list) (enumerate 0 all_page_tables) of
        (deep_found, out) \<Rightarrow>
          if \<not> deep_found \<and> q_keywords processing_input \<noteq> [] then
            foldl (keyword_fallback_step headers_cache) out
              (map (\<lambda>(i, tbl).
                      (i, tbl, determine_section_static driver tbl section_titles_on_page))
                   (filter (\<lambda>(i, tbl).
                              keyword_match_static (lower (tbl_text tbl))
                                (q_keywords processing_input))
                           (enumerate 0 all_page_tables)))
          else out)"

definition is_graph_table :: "table \<Rightarrow> bool" where
  \<comment> \<open>\<^verbatim>\<open>"graphtabs" in (t.get_attribute("class") or "")\<close>\<close>
  "is_graph_table t = sublist ''graphtabs'' (or_empty (tbl_class t))"

definition data_tables_of :: "page \<Rightarrow> table list" where
  \<comment> \<open>lines 1020--1022\<close>
  "data_tables_of driver =
     filter (\<lambda>t. t \<notin> set (filter is_graph_table (page_tables driver))) (page_tables driver)"

definition build_headers_cache :: "table list \<Rightarrow> headers_cache" where
  \<comment> \<open>lines 1025--1029\<close>
  "build_headers_cache data_tables =
     map_of (map (\<lambda>(i, tbl). (i, get_table_headers_and_data_start_idx_static tbl (find_tr tbl)))
                 (enumerate 0 data_tables))"

definition find_and_process_tables_graphs_static ::
  "graph_emitter \<Rightarrow> page \<Rightarrow> entry list \<Rightarrow> query \<Rightarrow> string list \<Rightarrow> entry list" where
  \<comment> \<open>lines 1012--1091; the result is \<^verbatim>\<open>worker_all_data_list\<close> after the call\<close>
  "find_and_process_tables_graphs_static process_graph driver worker_all_data_list
       processing_input section_titles_on_page =
     (let graph_tables = filter is_graph_table (page_tables driver);
          data_tables = data_tables_of driver;
          headers_cache = build_headers_cache data_tables;
          matching_tables =
            find_matching_tables_static driver data_tables (q_search_terms processing_input)
              (q_keywords processing_input) section_titles_on_page;
          matching_graphs =
            find_matching_graph_tables_static driver graph_tables
              (q_search_terms processing_input) (q_keywords processing_input)
              section_titles_on_page;
          r1 = (if matching_tables \<noteq> [] then
                  process_matching_elements_static process_graph worker_all_data_list
                    matching_tables [] processing_input headers_cache
                else (False, worker_all_data_list));
          r2 = (if matching_graphs \<noteq> [] then
                  (case process_matching_elements_static process_graph (snd r1) []
                          matching_graphs processing_input headers_cache of
                     (added, out) \<Rightarrow> (fst r1 \<or> added, out))
                else r1)
      in if \<not> fst r2 then
           handle_no_matches_static driver (snd r2) data_tables processing_input
             section_titles_on_page headers_cache
         else snd r2)"

section \<open>Pages used as examples\<close>

definition dash_to_empty :: "string list \<Rightarrow> string list" where
  \<comment> \<open>a row of cell texts with every \<^verbatim>\<open>"-"\<close> after the first cell replaced by
      \<^verbatim>\<open>""\<close>; used to state that the two are rendered alike\<close>
  "dash_to_empty r =
     (case r of [] \<Rightarrow> [] | c0 # vs \<Rightarrow> c0 # map (\<lambda>v. if v = ''-'' then [] else v) vs)"

definition th_cell :: "string \<Rightarrow> cell" where
  "th_cell s = \<lparr>cell_tag = TH, cell_text = s, cell_imgs = []\<rparr>"

definition td_cell :: "string \<Rightarrow> cell" where
  "td_cell s = \<lparr>cell_tag = TD, cell_text = s, cell_imgs = []\<rparr>"

definition plain_row :: "cell list \<Rightarrow> row" where
  "plain_row cs = \<lparr>row_class = None, row_cells = cs\<rparr>"

definition group_row :: "cell list \<Rightarrow> row" where
  "group_row cs = \<lparr>row_class = Some ''subrow'', row_cells = cs\<rparr>"

definition plain_table :: "string \<Rightarrow> row list option \<Rightarrow> row list \<Rightarrow> table" where
  "plain_table txt thead_rows body =
     \<lparr>tbl_class = None, tbl_text = txt, tbl_captions = [], tbl_thead = thead_rows,
      tbl_body = body, tbl_svg_title = None, tbl_y = Some 0\<rparr>"

definition grouped_table :: table where
  \<comment> \<open>a group header, three rows of the group, the next group header\<close>
  "grouped_table =
     plain_table ''Retention rates Full-time 82% Part-time - Transfer-out 10% Graduation rates''
       None
       [group_row [td_cell ''Retention rates''],
        plain_row [td_cell ''Full-time'', td_cell ''82%''],
        plain_row [td_cell ''Part-time'', td_cell ''-''],
        plain_row [td_cell ''Transfer-out'', td_cell ''10%''],
        group_row [td_cell ''Graduation rates'']]"

definition repeated_table :: table where
  \<comment> \<open>a group header and a row of the group that names the term as well\<close>
  "repeated_table =
     plain_table ''Retention rates Full-time retention 82% Graduation rates'' None
       [group_row [td_cell ''Retention rates''],
        plain_row [td_cell ''Full-time retention'', td_cell ''82%''],
        group_row [td_cell ''Graduation rates'']]"

definition noted_table :: table where
  \<comment> \<open>a group whose first row has only a \<^verbatim>\<open>th\<close> cell\<close>
  "noted_table =
     plain_table ''Retention rates Cohort 2020 Full-time 82% Graduation rates'' None
       [group_row [td_cell ''Retention rates''],
        plain_row [th_cell ''Cohort 2020''],
        plain_row [td_cell ''Full-time'', td_cell ''82%''],
        group_row [td_cell ''Graduation rates'']]"

definition graph_widget :: "string \<Rightarrow> table" where
  \<comment> \<open>a graph widget with no text of its own and one image with this \<^verbatim>\<open>alt\<close>\<close>
  "graph_widget alt =
     \<lparr>tbl_class = Some ''graphtabs'', tbl_text = [], tbl_captions = [], tbl_thead = None,
      tbl_body = [plain_row [\<lparr>cell_tag = TD, cell_text = [], cell_imgs = [Some alt]\<rparr>]],
      tbl_svg_title = None, tbl_y = Some 0\<rparr>"

definition empty_page :: page where
  "empty_page = \<lparr>page_tables = [], page_tabtitles = []\<rparr>"


definition heading_table :: table where
  \<comment> \<open>a table that holds one row of \<^verbatim>\<open>th\<close> cells and nothing else\<close>
  "heading_table = plain_table ''Retention'' None [plain_row [th_cell ''Retention'']]"

definition captioned_table :: table where
  \<comment> \<open>a table whose caption names the term, and whose rows do not\<close>
  "captioned_table =
     \<lparr>tbl_class = None, tbl_text = ''Fee Amount Application 50'',
      tbl_captions = [''Tuition and fees''],
      tbl_thead = Some [plain_row [th_cell ''Fee'', th_cell ''Amount'']],
      tbl_body = [plain_row [td_cell ''Application'', td_cell ''50'']],
      tbl_svg_title = None, tbl_y = Some 0\<rparr>"

definition no_graphs :: graph_emitter where
  \<comment> \<open>the graph emission of a page without graph widgets\<close>
  "no_graphs container index section_name search_terms_list worker_all_data_list =
     worker_all_data_list"

section \<open>Properties\<close>

subsection \<open>TextClassifier\<close>









lemma find_None_iff_set: "find P xs = None \<longleftrightarrow> (\<forall>x \<in> set xs. \<not> P x)"
  by (induction xs) auto







subsection \<open>DeepRowSearch: the shape of the result\<close>

lemma join_nonempty: "xs \<noteq> [] \<Longrightarrow> \<forall>x\<in>set xs. x \<noteq> [] \<Longrightarrow> join sep xs \<noteq> []"
  by (induction sep xs rule: join.induct) auto

lemma strip_Nil: "strip [] = []"
  by (simp add: strip_def)

lemma header_entry_Value:
  "Value (header_entry hs sect) =
     (if filter (\<lambda>h. strip h \<noteq> []) (drop 1 hs) = [] then ''blank''
      else join ''; '' (filter (\<lambda>h. strip h \<noteq> []) (drop 1 hs)))"
proof -
  have "join ''; '' (filter (\<lambda>h. strip h \<noteq> []) (drop 1 hs)) \<noteq> []"
    if "filter (\<lambda>h. strip h \<noteq> []) (drop 1 hs) \<noteq> []"
    using that by (intro join_nonempty) (auto simp: strip_Nil)
  then show ?thesis
    by (auto simp: header_entry_def Let_def)
qed

lemma header_entry_Category:
  "Category (header_entry hs sect) =
     (case hs of [] \<Rightarrow> ''blank'' | h # _ \<Rightarrow> if strip h \<noteq> [] then strip h else ''blank'')"
  by (simp add: header_entry_def Let_def)

lemma deep_search_eq:
  "deep_search_in_table_static t i cache terms kws sect out =
     (if scan_rows (fst (cache_get cache i)) (snd (cache_get cache i)) terms kws sect 0 (find_tr t) = []
      then (False, out)
      else (True, out @ [search_separator sect, header_entry (fst (cache_get cache i)) sect]
                  @ scan_rows (fst (cache_get cache i)) (snd (cache_get cache i)) terms kws sect 0
                      (find_tr t)))"
  by (cases "find_tr t")
     (simp_all add: deep_search_in_table_static_def emit_cached_header_row_def Let_def
        split: prod.splits)

lemma detail_of_sources:
  "e \<in> set (detail_of sect r) \<Longrightarrow> Section e = sect \<and> Source e = ''DeepSearch - Subrow Detail''"
  by (auto simp: detail_of_def detail_entry_def split: list.splits)

lemma detail_rows_sources:
  "e \<in> set (detail_rows sect rows) \<Longrightarrow> Section e = sect \<and> Source e = ''DeepSearch - Subrow Detail''"
  by (induction sect rows rule: detail_rows.induct)
     (auto dest: detail_of_sources split: if_splits)

lemma row_found_sources:
  "e \<in> set (row_found hs terms kws sect r rest) \<Longrightarrow> Section e = sect \<and> Source e \<in> row_sources"
  by (auto simp: row_found_def row_sources_def group_entry_def normal_entry_def
        dest: detail_rows_sources split: list.splits if_splits)

lemma scan_rows_sources:
  "e \<in> set (scan_rows hs st terms kws sect idx rows) \<Longrightarrow> Section e = sect \<and> Source e \<in> row_sources"
  by (induction rows arbitrary: idx) (auto dest: row_found_sources split: if_splits)

lemma scan_rows_split:
  "\<exists>A. scan_rows hs st terms kws sect idx (pre @ r # rest) =
         A @ (if idx + length pre < st then [] else row_found hs terms kws sect r rest)
           @ scan_rows hs st terms kws sect (Suc (idx + length pre)) rest"
proof (induction pre arbitrary: idx)
  case Nil
  show ?case by (intro exI [of _ "[]"]) simp
next
  case (Cons p pre)
  from Cons.IH [of "Suc idx"] obtain A where
    "scan_rows hs st terms kws sect (Suc idx) (pre @ r # rest) =
       A @ (if Suc idx + length pre < st then [] else row_found hs terms kws sect r rest)
         @ scan_rows hs st terms kws sect (Suc (Suc idx + length pre)) rest" ..
  then show ?case
    by (intro exI [of _ "(if idx < st then [] else row_found hs terms kws sect p (pre @ r # rest)) @ A"])
       simp
qed

lemma detail_rows_closed:
  "detail_rows sect rest =
     concat (map (detail_of sect) (takeWhile (\<lambda>r. \<not> is_subrow r) rest))"
  by (induction sect rest rule: detail_rows.induct) auto

lemma detail_rows_append:
  "\<forall>r\<in>set mid. \<not> is_subrow r \<Longrightarrow>
     detail_rows sect (mid @ ys) = detail_rows sect mid @ detail_rows sect ys"
  by (induction mid) auto

lemma row_found_group:
  assumes "row_matches hs terms kws g" and "is_subrow g" and "find_cells TD g = c0 # cs"
  shows "row_found hs terms kws sect g rest = group_entry sect (cell_value c0) # detail_rows sect rest"
  using assms by (simp add: row_found_def row_matches_def)

lemma row_found_normal:
  assumes "row_matches hs terms kws d" and "\<not> is_subrow d" and "find_cells TD d = c0 # cs"
  shows "row_found hs terms kws sect d rest =
           [normal_entry sect (term_hit hs terms (map cell_value (c0 # cs))) (cell_value c0)
              (map cell_value cs)]"
  using assms by (simp add: row_found_def row_matches_def)

lemma row_found_no_match:
  "\<not> row_matches hs terms kws r \<Longrightarrow> row_found hs terms kws sect r rest = []"
  by (auto simp: row_found_def row_matches_def split: list.splits)


subsection \<open>HeaderInference\<close>

lemma headers_no_rows:
  "get_table_headers_and_data_start_idx_static any_table [] = ([], 0)"
  by (simp add: get_table_headers_and_data_start_idx_static_def)

lemma headers_from_thead:
  assumes th: "tbl_thead t = Some thead_rows" and ne: "thead_rows \<noteq> []"
    and cells: "find_cells TH (last thead_rows) \<noteq> [] \<or> find_cells TD (last thead_rows) \<noteq> []"
  shows "get_table_headers_and_data_start_idx_static t (find_tr t) =
       (header_labels ''HeadCol''
          (if find_cells TH (last thead_rows) \<noteq> [] then find_cells TH (last thead_rows)
           else find_cells TD (last thead_rows)),
        length thead_rows)"
proof -
  from th ne have rows: "find_tr t = hd thead_rows # (tl thead_rows @ tbl_body t)"
    by (simp add: find_tr_def)
  from th ne cells
  have "thead_headers t =
          Some (header_labels ''HeadCol''
                  (if find_cells TH (last thead_rows) \<noteq> [] then find_cells TH (last thead_rows)
                   else find_cells TD (last thead_rows)),
                length thead_rows)"
    by (auto simp: thead_headers_def Let_def)
  then show ?thesis
    by (simp add: get_table_headers_and_data_start_idx_static_def rows)
qed

lemma headers_no_markup:
  assumes th: "tbl_thead t = None" and no: "\<forall>r \<in> set (tbl_body t). find_cells TH r = []"
  shows "get_table_headers_and_data_start_idx_static t (find_tr t) = ([], 0)"
proof -
  from th have none: "thead_headers t = None"
    by (simp add: thead_headers_def)
  from th have rows: "find_tr t = tbl_body t"
    by (simp add: find_tr_def)
  show ?thesis
  proof (cases "tbl_body t")
    case Nil
    then show ?thesis
      by (simp add: get_table_headers_and_data_start_idx_static_def rows)
  next
    case (Cons r rs)
    with no have "find_cells TH r = []" by simp
    with Cons none show ?thesis
      by (simp add: get_table_headers_and_data_start_idx_static_def rows)
  qed
qed

lemma headers_fall_through:
  assumes th: "tbl_thead t = Some rs"
    and no: "rs = [] \<or> (find_cells TH (last rs) = [] \<and> find_cells TD (last rs) = [])"
    and rows: "find_tr t = first_row # rest"
  shows "get_table_headers_and_data_start_idx_static t (find_tr t) =
           (if find_cells TH first_row = [] then ([], 0)
            else (header_labels ''Row1Col'' (find_cells TH first_row), 1))"
proof -
  from th no have "thead_headers t = None"
    by (auto simp: thead_headers_def Let_def)
  then show ?thesis
    by (simp add: get_table_headers_and_data_start_idx_static_def rows Let_def)
qed

text \<open>
  C9. (a) With no rows the result is \<open>([], 0)\<close>, whatever the table element holds.
  (b) When the table has a \<^verbatim>\<open>thead\<close> whose last row has a cell, the labels are
  those of that row and the data start at the number of \<^verbatim>\<open>thead\<close> rows, whatever
  the rows of the body hold, header-tagged or not. (c) A table with no \<^verbatim>\<open>thead\<close> and no
  \<^verbatim>\<open>th\<close> cell in any row gives \<open>([], 0)\<close>. (d) When the table has a
  \<^verbatim>\<open>thead\<close> that has no row, or whose last row has no cell, the \<^verbatim>\<open>thead\<close> is
  passed over: the labels are the \<^verbatim>\<open>th\<close> cells of the first row of the table, with
  the data starting at row 1, and \<open>([], 0)\<close> when that row has none.
\<close>

theorem C9_header_inference:
  "get_table_headers_and_data_start_idx_static any_table [] = ([], 0)
   \<and> (tbl_thead t = Some thead_rows \<and> thead_rows \<noteq> [] \<and>
       (find_cells TH (last thead_rows) \<noteq> [] \<or> find_cells TD (last thead_rows) \<noteq> []) \<longrightarrow>
       get_table_headers_and_data_start_idx_static t (find_tr t) =
         (header_labels ''HeadCol''
            (if find_cells TH (last thead_rows) \<noteq> [] then find_cells TH (last thead_rows)
             else find_cells TD (last thead_rows)),
          length thead_rows))
   \<and> (tbl_thead u = None \<and> (\<forall>r \<in> set (tbl_body u). find_cells TH r = []) \<longrightarrow>
       get_table_headers_and_data_start_idx_static u (find_tr u) = ([], 0))
   \<and> (tbl_thead v = Some rs
       \<and> (rs = [] \<or> (find_cells TH (last rs) = [] \<and> find_cells TD (last rs) = []))
       \<and> find_tr v = first_row # rest \<longrightarrow>
       get_table_headers_and_data_start_idx_static v (find_tr v) =
         (if find_cells TH first_row = [] then ([], 0)
          else (header_labels ''Row1Col'' (find_cells TH first_row), 1)))"
  using headers_no_rows headers_from_thead headers_no_markup headers_fall_through
  by blast

theorem C9_counterexample:
  "get_table_headers_and_data_start_idx_static
     (plain_table ''t'' (Some [plain_row [th_cell ''A'', th_cell ''B''], plain_row []])
        [plain_row [th_cell ''Name'', th_cell ''Amount''],
         plain_row [td_cell ''Tuition'', td_cell ''100'']])
     (find_tr (plain_table ''t'' (Some [plain_row [th_cell ''A'', th_cell ''B''], plain_row []])
        [plain_row [th_cell ''Name'', th_cell ''Amount''],
         plain_row [td_cell ''Tuition'', td_cell ''100'']]))
   = ([''A'', ''B''], 1)
   \<and> get_table_headers_and_data_start_idx_static
     (plain_table ''t'' (Some [])
        [plain_row [th_cell ''Name'', th_cell ''Amount''],
         plain_row [td_cell ''Tuition'', td_cell ''100'']])
     (find_tr (plain_table ''t'' (Some [])
        [plain_row [th_cell ''Name'', th_cell ''Amount''],
         plain_row [td_cell ''Tuition'', td_cell ''100'']]))
   = ([''Name'', ''Amount''], 1)"
  by code_simp

lemmas cell_eval =
  th_cell_def td_cell_def plain_row_def plain_table_def find_cells_def find_tr_def

theorem C9_witness:
  "get_table_headers_and_data_start_idx_static
     (plain_table ''t'' (Some [plain_row [th_cell ''Category'', th_cell '' '']])
        [plain_row [th_cell ''Name'', th_cell ''Amount''],
         plain_row [td_cell ''Tuition'', td_cell ''100'']])
     (find_tr (plain_table ''t'' (Some [plain_row [th_cell ''Category'', th_cell '' '']])
        [plain_row [th_cell ''Name'', th_cell ''Amount''],
         plain_row [td_cell ''Tuition'', td_cell ''100'']]))
   = ([''Category'', ''HeadCol2''], 1)
   \<and> get_table_headers_and_data_start_idx_static
     (plain_table ''t'' None [plain_row [td_cell ''Total cost'', td_cell ''25,000'']])
     (find_tr (plain_table ''t'' None [plain_row [td_cell ''Total cost'', td_cell ''25,000'']]))
   = ([], 0)
   \<and> get_table_headers_and_data_start_idx_static
     (plain_table ''t'' (Some [plain_row []])
        [plain_row [th_cell ''Year'', th_cell ''''],
         plain_row [td_cell ''2020'', td_cell ''82%'']])
     (find_tr (plain_table ''t'' (Some [plain_row []])
        [plain_row [th_cell ''Year'', th_cell ''''],
         plain_row [td_cell ''2020'', td_cell ''82%'']]))
   = ([], 0)"
proof -
  have lab: "header_labels ''HeadCol'' [th_cell ''Category'', th_cell '' ''] =
               [''Category'', ''HeadCol2'']"
    by (simp add: header_labels_def enumerate_eq_zip upt_rec th_cell_def strip_def is_space_def
          str_of_nat.simps digit_char_def)
  from C9_header_inference
         [of _ "plain_table ''t'' (Some [plain_row [th_cell ''Category'', th_cell '' '']])
                  [plain_row [th_cell ''Name'', th_cell ''Amount''],
                   plain_row [td_cell ''Tuition'', td_cell ''100'']]"
             "[plain_row [th_cell ''Category'', th_cell '' '']]"
             "plain_table ''t'' None [plain_row [td_cell ''Total cost'', td_cell ''25,000'']]"
             "plain_table ''t'' (Some [plain_row []])
                  [plain_row [th_cell ''Year'', th_cell ''''],
                   plain_row [td_cell ''2020'', td_cell ''82%'']]"
             "[plain_row []]" "plain_row []"
             "[plain_row [th_cell ''Year'', th_cell ''''],
               plain_row [td_cell ''2020'', td_cell ''82%'']]"]
  show ?thesis
    by (simp add: cell_eval lab [unfolded th_cell_def])
qed

lemmas example_eval =
  grouped_table_def repeated_table_def noted_table_def group_row_def th_cell_def td_cell_def
  plain_row_def plain_table_def find_cells_def find_tr_def

subsection \<open>DeepRowSearch: all or nothing\<close>

text \<open>
  C6. For every table, header cache, query, section and output list,
  \<^const>\<open>deep_search_in_table_static\<close> either returns \<open>False\<close> and the output list as it
  was, or returns \<open>True\<close> and the output list followed by the section-boundary marker, the
  header-summary record and a non-empty list of row records, in this order; every row record
  carries the section and one of the four row tags. The header-summary record has the
  stripped first label as its \<open>Category\<close> (\<^verbatim>\<open>blank\<close> when there is none or it is
  blank) and as its \<open>Value\<close> the non-blank remaining labels joined by \<^verbatim>\<open>; \<close>
  (\<^verbatim>\<open>blank\<close> when there is none).
\<close>

theorem C6_deep_search_all_or_nothing:
  "((scan_rows (fst (cache_get cache i)) (snd (cache_get cache i)) terms kws sect 0 (find_tr t)
       = []
     \<and> deep_search_in_table_static t i cache terms kws sect out = (False, out))
    \<or> (scan_rows (fst (cache_get cache i)) (snd (cache_get cache i)) terms kws sect 0 (find_tr t)
          \<noteq> []
        \<and> deep_search_in_table_static t i cache terms kws sect out =
            (True, out @ [search_separator sect, header_entry (fst (cache_get cache i)) sect]
                   @ scan_rows (fst (cache_get cache i)) (snd (cache_get cache i)) terms kws
                       sect 0 (find_tr t))))
   \<and> (\<forall>e\<in>set (scan_rows (fst (cache_get cache i)) (snd (cache_get cache i)) terms kws sect 0
                   (find_tr t)).
         Section e = sect \<and> Source e \<in> row_sources)
   \<and> Category (header_entry hs sect) =
       (case hs of [] \<Rightarrow> ''blank'' | h # _ \<Rightarrow> if strip h \<noteq> [] then strip h else ''blank'')
   \<and> Value (header_entry hs sect) =
       (if filter (\<lambda>h. strip h \<noteq> []) (drop 1 hs) = [] then ''blank''
        else join ''; '' (filter (\<lambda>h. strip h \<noteq> []) (drop 1 hs)))
   \<and> Category (search_separator sect) = ''--- '' @ sect @ '' - SEARCH RESULTS IN TABLE ---''
   \<and> Value (search_separator sect) = []"
proof -
  let ?found = "scan_rows (fst (cache_get cache i)) (snd (cache_get cache i)) terms kws sect 0
                  (find_tr t)"
  have shape: "(?found = [] \<and> deep_search_in_table_static t i cache terms kws sect out = (False, out))
    \<or> (?found \<noteq> []
        \<and> deep_search_in_table_static t i cache terms kws sect out =
            (True, out @ [search_separator sect, header_entry (fst (cache_get cache i)) sect]
                   @ ?found))"
    by (simp add: deep_search_eq)
  have tags: "\<forall>e\<in>set ?found. Section e = sect \<and> Source e \<in> row_sources"
    using scan_rows_sources by blast
  show ?thesis
    using shape tags header_entry_Category [of hs sect] header_entry_Value [of hs sect]
    by (simp add: search_separator_def)
qed

theorem C6_witness:
  "(\<exists>found. found \<noteq> []
      \<and> deep_search_in_table_static repeated_table 0 Map.empty [''retention''] [] ''S''
          [search_separator ''R''] =
        (True, [search_separator ''R''] @ [search_separator ''S'', header_entry [] ''S'']
               @ found))
   \<and> deep_search_in_table_static repeated_table 0 Map.empty [''tuition''] [] ''S''
        [search_separator ''R''] = (False, [search_separator ''R''])
   \<and> Category (header_entry [''Category '', ''2020'', '' '', ''2021''] ''S'') = ''Category''
   \<and> Value (header_entry [''Category '', ''2020'', '' '', ''2021''] ''S'') = ''2020; 2021''
   \<and> Category (header_entry [] ''S'') = ''blank''
   \<and> Value (header_entry [] ''S'') = ''blank''"
proof -
  have hit: "fst (deep_search_in_table_static repeated_table 0 Map.empty [''retention''] []
                ''S'' [search_separator ''R''])"
    by code_simp
  have miss: "deep_search_in_table_static repeated_table 0 Map.empty [''tuition''] [] ''S''
                [search_separator ''R''] = (False, [search_separator ''R''])"
    by code_simp
  have labels:
    "Category (header_entry [''Category '', ''2020'', '' '', ''2021''] ''S'') = ''Category''"
    "Value (header_entry [''Category '', ''2020'', '' '', ''2021''] ''S'') = ''2020; 2021''"
    "Category (header_entry [] ''S'') = ''blank''"
    "Value (header_entry [] ''S'') = ''blank''"
    by code_simp+
  have none: "fst (cache_get Map.empty 0) = []"
    by (simp add: cache_get_def)
  from C6_deep_search_all_or_nothing
         [of Map.empty 0 "[''retention'']" "[]" "''S''" repeated_table "[search_separator ''R'']"
             "[]"] hit
  have "\<exists>found. found \<noteq> []
      \<and> deep_search_in_table_static repeated_table 0 Map.empty [''retention''] [] ''S''
          [search_separator ''R''] =
        (True, [search_separator ''R''] @ [search_separator ''S'', header_entry [] ''S'']
               @ found)"
    by (auto simp: none)
  with miss labels show ?thesis
    by blast
qed

subsection \<open>DeepRowSearch: a row of a group that matches by itself\<close>

text \<open>
  C10. Let the rows from the data start on hold a group header that matches the query (and
  has a \<^verbatim>\<open>td\<close> cell), then rows that are not group headers, one of which, \<open>d\<close>,
  matches the query by itself. The scan appends the group record and the detail records of
  all those rows, and goes on with the row right after the group header, at the next index.
  So the result holds the detail record of \<open>d\<close> (its first cell behind the indent marker)
  and, later, a normal record of \<open>d\<close>, whose \<open>Category\<close> is its first cell as it is.
\<close>

theorem C10_matching_detail_row_emitted_twice:
  assumes rows: "find_tr t = pre @ g # mid @ d # post"
    and start: "snd (cache_get cache i) \<le> length pre"
    and g: "is_subrow g" "row_matches (fst (cache_get cache i)) terms kws g"
           "find_cells TD g = g0 # gs"
    and mid: "\<forall>r\<in>set mid. \<not> is_subrow r"
    and d: "\<not> is_subrow d" "row_matches (fst (cache_get cache i)) terms kws d"
           "find_cells TD d = c0 # cs"
  shows "(\<exists>A. scan_rows (fst (cache_get cache i)) (snd (cache_get cache i)) terms kws sect 0
               (find_tr t) =
             A @ (group_entry sect (cell_value g0) # detail_rows sect (mid @ d # post))
               @ scan_rows (fst (cache_get cache i)) (snd (cache_get cache i)) terms kws sect
                   (Suc (length pre)) (mid @ d # post))
    \<and> (\<exists>A B C. deep_search_in_table_static t i cache terms kws sect out =
          (True, out @ [search_separator sect, header_entry (fst (cache_get cache i)) sect] @ A
             @ [detail_entry sect (strip (cell_text c0)) (map (\<lambda>c. strip (cell_text c)) cs)] @ B
             @ [normal_entry sect
                  (term_hit (fst (cache_get cache i)) terms (map cell_value (c0 # cs)))
                  (cell_value c0) (map cell_value cs)] @ C))
    \<and> Category (normal_entry sect by_term (cell_value c0) (map cell_value cs)) = cell_value c0
    \<and> Category (detail_entry sect (strip (cell_text c0)) (map (\<lambda>c. strip (cell_text c)) cs)) =
        ''  '' @ indent_marker @ '' '' @ strip (cell_text c0)"
proof -
  let ?hs = "fst (cache_get cache i)" and ?st = "snd (cache_get cache i)"
  let ?det = "detail_entry sect (strip (cell_text c0)) (map (\<lambda>c. strip (cell_text c)) cs)"
  let ?nor = "normal_entry sect (term_hit ?hs terms (map cell_value (c0 # cs)))
                (cell_value c0) (map cell_value cs)"
  from scan_rows_split [of ?hs ?st terms kws sect 0 pre g "mid @ d # post"] start
  obtain A where A: "scan_rows ?hs ?st terms kws sect 0 (find_tr t) =
      A @ row_found ?hs terms kws sect g (mid @ d # post)
        @ scan_rows ?hs ?st terms kws sect (Suc (length pre)) (mid @ d # post)"
    by (auto simp: rows)
  have grp: "row_found ?hs terms kws sect g (mid @ d # post) =
      group_entry sect (cell_value g0) # detail_rows sect (mid @ d # post)"
    by (rule row_found_group [OF g(2) g(1) g(3)])
  have det: "detail_rows sect (mid @ d # post) =
      detail_rows sect mid @ [?det] @ detail_rows sect post"
    using d(1) d(3) by (simp add: detail_rows_append [OF mid] detail_of_def)
  from scan_rows_split [of ?hs ?st terms kws sect "Suc (length pre)" mid d post] start
  obtain A' where A': "scan_rows ?hs ?st terms kws sect (Suc (length pre)) (mid @ d # post) =
      A' @ row_found ?hs terms kws sect d post
         @ scan_rows ?hs ?st terms kws sect (Suc (Suc (length pre) + length mid)) post"
    by auto
  have nor: "row_found ?hs terms kws sect d post = [?nor]"
    by (rule row_found_normal [OF d(2) d(1) d(3)])
  have first: "\<exists>A. scan_rows ?hs ?st terms kws sect 0 (find_tr t) =
             A @ (group_entry sect (cell_value g0) # detail_rows sect (mid @ d # post))
               @ scan_rows ?hs ?st terms kws sect (Suc (length pre)) (mid @ d # post)"
    using A grp by auto
  have found: "scan_rows ?hs ?st terms kws sect 0 (find_tr t) =
      (A @ group_entry sect (cell_value g0) # detail_rows sect mid) @ [?det]
      @ (detail_rows sect post @ A') @ [?nor]
      @ scan_rows ?hs ?st terms kws sect (Suc (Suc (length pre) + length mid)) post"
    by (simp add: A grp det A' nor)
  then have ne: "scan_rows ?hs ?st terms kws sect 0 (find_tr t) \<noteq> []"
    by simp
  have second: "\<exists>A B C. deep_search_in_table_static t i cache terms kws sect out =
          (True, out @ [search_separator sect, header_entry ?hs sect] @ A
             @ [?det] @ B @ [?nor] @ C)"
    apply (rule exI [of _ "A @ group_entry sect (cell_value g0) # detail_rows sect mid"])
    apply (rule exI [of _ "detail_rows sect post @ A'"])
    apply (rule exI [of _ "scan_rows ?hs ?st terms kws sect (Suc (Suc (length pre) + length mid)) post"])
    using ne apply (simp only: deep_search_eq if_False)
    apply (simp only: found)
    done
  have third: "Category (normal_entry sect by_term (cell_value c0) (map cell_value cs)) = cell_value c0"
    by (simp add: normal_entry_def)
  have fourth: "Category ?det = ''  '' @ indent_marker @ '' '' @ strip (cell_text c0)"
    by (simp add: detail_entry_def)
  from first second third fourth show ?thesis by blast
qed

theorem C10_witness:
  "(\<exists>A B C. deep_search_in_table_static repeated_table 0 Map.empty [''retention''] [] ''S'' [] =
      (True, [search_separator ''S'', header_entry [] ''S''] @ A
         @ [detail_entry ''S'' ''Full-time retention'' [''82%'']] @ B
         @ [normal_entry ''S'' True ''Full-time retention'' [''82%'']] @ C))
   \<and> deep_search_in_table_static repeated_table 0 Map.empty [''retention''] [] ''S'' [] =
      (True, [search_separator ''S'', header_entry [] ''S'',
              group_entry ''S'' ''Retention rates'',
              detail_entry ''S'' ''Full-time retention'' [''82%''],
              normal_entry ''S'' True ''Full-time retention'' [''82%'']])"
proof -
  let ?g = "group_row [td_cell ''Retention rates'']"
  let ?d = "plain_row [td_cell ''Full-time retention'', td_cell ''82%'']"
  have rows: "find_tr repeated_table = [] @ ?g # [] @ ?d # [group_row [td_cell ''Graduation rates'']]"
    by (simp add: example_eval)
  have start: "snd (cache_get Map.empty 0) \<le> length ([] :: row list)"
    by (simp add: cache_get_def)
  have g: "is_subrow ?g" "row_matches (fst (cache_get Map.empty 0)) [''retention''] [] ?g"
    by code_simp+
  have g0: "find_cells TD ?g = td_cell ''Retention rates'' # []"
    by (simp add: example_eval)
  have mid: "\<forall>r\<in>set ([] :: row list). \<not> is_subrow r"
    by simp
  have d: "\<not> is_subrow ?d" "row_matches (fst (cache_get Map.empty 0)) [''retention''] [] ?d"
    by code_simp+
  have c0: "find_cells TD ?d = td_cell ''Full-time retention'' # [td_cell ''82%'']"
    by (simp add: example_eval)
  have ev: "strip (cell_text (td_cell ''Full-time retention'')) = ''Full-time retention''"
    "strip (cell_text (td_cell ''82%'')) = ''82%''"
    "cell_value (td_cell ''Full-time retention'') = ''Full-time retention''"
    "cell_value (td_cell ''82%'') = ''82%''"
    "term_hit [] [''retention''] [''Full-time retention'', ''82%'']"
    "fst (cache_get Map.empty 0) = []"
    by code_simp+
  have all: "deep_search_in_table_static repeated_table 0 Map.empty [''retention''] [] ''S'' [] =
      (True, [search_separator ''S'', header_entry [] ''S'',
              group_entry ''S'' ''Retention rates'',
              detail_entry ''S'' ''Full-time retention'' [''82%''],
              normal_entry ''S'' True ''Full-time retention'' [''82%'']])"
    by code_simp
  from C10_matching_detail_row_emitted_twice
         [OF rows start g g0 mid d c0, of "''S''" "[]" True]
  have "\<exists>A B C. deep_search_in_table_static repeated_table 0 Map.empty [''retention''] [] ''S'' [] =
      (True, [search_separator ''S'', header_entry [] ''S''] @ A
         @ [detail_entry ''S'' ''Full-time retention'' [''82%'']] @ B
         @ [normal_entry ''S'' True ''Full-time retention'' [''82%'']] @ C)"
    by (simp add: ev)
  with all show ?thesis by blast
qed

subsection \<open>DeepRowSearch: a matching group header\<close>

lemma scan_rows_no_match:
  "\<forall>r\<in>set rows. \<not> row_matches hs terms kws r \<Longrightarrow>
     scan_rows hs st terms kws sect idx rows = []"
  by (induction rows arbitrary: idx) (simp_all add: row_found_no_match)

lemma scan_rows_skip:
  "\<forall>r\<in>set pre. \<not> row_matches hs terms kws r \<Longrightarrow>
     scan_rows hs st terms kws sect idx (pre @ rows) =
     scan_rows hs st terms kws sect (idx + length pre) rows"
  by (induction pre arbitrary: idx) (simp_all add: row_found_no_match)

lemma detail_of_length:
  "length (detail_of sect r) = (if find_cells TD r = [] then 0 else 1)"
  by (simp add: detail_of_def split: list.splits)

lemma group_then_details:
  assumes rows: "find_tr t = pre @ g # rest"
    and start: "snd (cache_get cache i) \<le> length pre"
    and g: "is_subrow g" "row_matches (fst (cache_get cache i)) terms kws g"
           "find_cells TD g = g0 # gs"
  shows "\<exists>A. scan_rows (fst (cache_get cache i)) (snd (cache_get cache i)) terms kws sect 0
              (find_tr t) =
            A @ (group_entry sect (cell_value g0)
                 # concat (map (detail_of sect) (takeWhile (\<lambda>r. \<not> is_subrow r) rest)))
              @ scan_rows (fst (cache_get cache i)) (snd (cache_get cache i)) terms kws sect
                  (Suc (length pre)) rest"
proof -
  let ?hs = "fst (cache_get cache i)" and ?st = "snd (cache_get cache i)"
  from scan_rows_split [of ?hs ?st terms kws sect 0 pre g rest] start
  obtain A where "scan_rows ?hs ?st terms kws sect 0 (find_tr t) =
      A @ row_found ?hs terms kws sect g rest
        @ scan_rows ?hs ?st terms kws sect (Suc (length pre)) rest"
    by (auto simp: rows)
  then show ?thesis
    by (intro exI [of _ A])
       (simp add: row_found_group [OF g(2) g(1) g(3)] detail_rows_closed)
qed

lemma one_group_three_details:
  assumes rows: "find_tr t = pre @ [g, d1, d2, d3, g2] @ post"
    and start: "snd (cache_get cache i) \<le> length pre"
    and g: "is_subrow g" "row_matches (fst (cache_get cache i)) terms kws g"
           "find_cells TD g = g0 # gs"
    and ds: "\<not> is_subrow d1" "\<not> is_subrow d2" "\<not> is_subrow d3" "is_subrow g2"
    and others: "\<forall>r\<in>set (pre @ [d1, d2, d3, g2] @ post).
                   \<not> row_matches (fst (cache_get cache i)) terms kws r"
  shows "deep_search_in_table_static t i cache terms kws sect out =
           (True, out @ [search_separator sect, header_entry (fst (cache_get cache i)) sect,
                         group_entry sect (cell_value g0)]
                  @ detail_of sect d1 @ detail_of sect d2 @ detail_of sect d3)"
proof -
  let ?hs = "fst (cache_get cache i)" and ?st = "snd (cache_get cache i)"
  from others have pre: "\<forall>r\<in>set pre. \<not> row_matches ?hs terms kws r"
    and rest: "\<forall>r\<in>set ([d1, d2, d3, g2] @ post). \<not> row_matches ?hs terms kws r"
    by auto
  have "scan_rows ?hs ?st terms kws sect 0 (find_tr t) =
          scan_rows ?hs ?st terms kws sect (length pre) (g # [d1, d2, d3, g2] @ post)"
    using scan_rows_skip [OF pre, of ?st sect 0 "[g, d1, d2, d3, g2] @ post"]
    by (simp add: rows)
  also have "\<dots> = row_found ?hs terms kws sect g ([d1, d2, d3, g2] @ post)"
    using start scan_rows_no_match [OF rest, of ?st sect "Suc (length pre)"]
    by simp
  also have "\<dots> = group_entry sect (cell_value g0)
                  # detail_of sect d1 @ detail_of sect d2 @ detail_of sect d3"
    using ds by (simp add: row_found_group [OF g(2) g(1) g(3)])
  finally show ?thesis
    by (simp add: deep_search_eq)
qed

text \<open>
  C7. Let a group header \<open>g\<close> at or after the data start match the query and have a
  \<^verbatim>\<open>td\<close> cell. The scan appends one group record (\<open>Category\<close> the first cell,
  \<open>Value\<close> empty, \<open>Source\<close> the group tag), then the detail records of the rows after
  \<open>g\<close> up to and excluding the next group header or the end of the table, and goes on with
  the row after \<open>g\<close>. A row gives one detail record when it has a \<^verbatim>\<open>td\<close> cell and
  none when it has not. When the rows are, between rows that do not match, a group header
  that matches, three rows that are no group headers and do not match, and a second group
  header that does not match, the result is the marker, the header-summary record, the
  group record and the detail records of the three rows, and nothing else.
\<close>

theorem C7_group_and_detail_records:
  "(find_tr t = pre @ g # rest \<and> snd (cache_get cache i) \<le> length pre \<and> is_subrow g
    \<and> row_matches (fst (cache_get cache i)) terms kws g \<and> find_cells TD g = g0 # gs \<longrightarrow>
    (\<exists>A. scan_rows (fst (cache_get cache i)) (snd (cache_get cache i)) terms kws sect 0
            (find_tr t) =
          A @ (group_entry sect (cell_value g0)
               # concat (map (detail_of sect) (takeWhile (\<lambda>r. \<not> is_subrow r) rest)))
            @ scan_rows (fst (cache_get cache i)) (snd (cache_get cache i)) terms kws sect
                (Suc (length pre)) rest))
   \<and> length (detail_of sect r) = (if find_cells TD r = [] then 0 else 1)
   \<and> (find_cells TD r = c0 # cs \<longrightarrow>
        detail_of sect r =
          [detail_entry sect (strip (cell_text c0)) (map (\<lambda>c. strip (cell_text c)) cs)])
   \<and> Category (group_entry sect v0) = v0
   \<and> Value (group_entry sect v0) = []
   \<and> Source (group_entry sect v0) = ''DeepSearch - Subrow Group''
   \<and> (find_tr t' = pre' @ [g', d1, d2, d3, g2] @ post'
       \<and> snd (cache_get cache i) \<le> length pre' \<and> is_subrow g'
       \<and> row_matches (fst (cache_get cache i)) terms kws g' \<and> find_cells TD g' = g0' # gs'
       \<and> \<not> is_subrow d1 \<and> \<not> is_subrow d2 \<and> \<not> is_subrow d3 \<and> is_subrow g2
       \<and> (\<forall>r\<in>set (pre' @ [d1, d2, d3, g2] @ post').
             \<not> row_matches (fst (cache_get cache i)) terms kws r) \<longrightarrow>
       deep_search_in_table_static t' i cache terms kws sect out =
         (True, out @ [search_separator sect, header_entry (fst (cache_get cache i)) sect,
                       group_entry sect (cell_value g0')]
                @ detail_of sect d1 @ detail_of sect d2 @ detail_of sect d3))"
proof -
  have a: "find_tr t = pre @ g # rest \<and> snd (cache_get cache i) \<le> length pre \<and> is_subrow g
    \<and> row_matches (fst (cache_get cache i)) terms kws g \<and> find_cells TD g = g0 # gs \<longrightarrow>
    (\<exists>A. scan_rows (fst (cache_get cache i)) (snd (cache_get cache i)) terms kws sect 0
            (find_tr t) =
          A @ (group_entry sect (cell_value g0)
               # concat (map (detail_of sect) (takeWhile (\<lambda>r. \<not> is_subrow r) rest)))
            @ scan_rows (fst (cache_get cache i)) (snd (cache_get cache i)) terms kws sect
                (Suc (length pre)) rest)"
    using group_then_details by blast
  have b: "find_cells TD r = c0 # cs \<longrightarrow>
        detail_of sect r =
          [detail_entry sect (strip (cell_text c0)) (map (\<lambda>c. strip (cell_text c)) cs)]"
    by (simp add: detail_of_def)
  have c: "find_tr t' = pre' @ [g', d1, d2, d3, g2] @ post'
       \<and> snd (cache_get cache i) \<le> length pre' \<and> is_subrow g'
       \<and> row_matches (fst (cache_get cache i)) terms kws g' \<and> find_cells TD g' = g0' # gs'
       \<and> \<not> is_subrow d1 \<and> \<not> is_subrow d2 \<and> \<not> is_subrow d3 \<and> is_subrow g2
       \<and> (\<forall>r\<in>set (pre' @ [d1, d2, d3, g2] @ post').
             \<not> row_matches (fst (cache_get cache i)) terms kws r) \<longrightarrow>
       deep_search_in_table_static t' i cache terms kws sect out =
         (True, out @ [search_separator sect, header_entry (fst (cache_get cache i)) sect,
                       group_entry sect (cell_value g0')]
                @ detail_of sect d1 @ detail_of sect d2 @ detail_of sect d3)"
    using one_group_three_details by blast
  have d: "Category (group_entry sect v0) = v0" "Value (group_entry sect v0) = []"
    "Source (group_entry sect v0) = ''DeepSearch - Subrow Group''"
    by (simp_all add: group_entry_def)
  show ?thesis
    apply (intro conjI)
          apply (rule a)
         apply (rule detail_of_length)
        apply (rule b)
       apply (rule d(1))
      apply (rule d(2))
     apply (rule d(3))
    apply (rule c)
    done
qed

theorem C7_counterexample:
  "takeWhile (\<lambda>r. \<not> is_subrow r) (tl (find_tr noted_table)) =
     [plain_row [th_cell ''Cohort 2020''], plain_row [td_cell ''Full-time'', td_cell ''82%'']]
   \<and> deep_search_in_table_static noted_table 0 Map.empty [''retention''] [] ''S'' [] =
       (True, [search_separator ''S'', header_entry [] ''S'',
               group_entry ''S'' ''Retention rates'',
               detail_entry ''S'' ''Full-time'' [''82%'']])
   \<and> deep_search_in_table_static grouped_table 0 Map.empty [''part-time''] [] ''S'' [] =
       (True, [search_separator ''S'', header_entry [] ''S'',
               normal_entry ''S'' True ''Part-time'' [''-'']])"
  by code_simp

theorem C7_witness:
  "(\<exists>A. scan_rows [] 0 [''retention''] [] ''S'' 0 (find_tr noted_table) =
          A @ [group_entry ''S'' ''Retention rates'',
               detail_entry ''S'' ''Full-time'' [''82%'']])
   \<and> deep_search_in_table_static grouped_table 0 Map.empty [''retention''] [] ''S'' [] =
       (True, [search_separator ''S'', header_entry [] ''S'',
               group_entry ''S'' ''Retention rates'',
               detail_entry ''S'' ''Full-time'' [''82%''],
               detail_entry ''S'' ''Part-time'' [''-''],
               detail_entry ''S'' ''Transfer-out'' [''10%'']])
   \<and> Value (detail_entry ''S'' ''Part-time'' [''-'']) = ''blank''"
proof -
  let ?g = "group_row [td_cell ''Retention rates'']"
  let ?n = "plain_row [th_cell ''Cohort 2020'']"
  let ?d1 = "plain_row [td_cell ''Full-time'', td_cell ''82%'']"
  let ?d2 = "plain_row [td_cell ''Part-time'', td_cell ''-'']"
  let ?d3 = "plain_row [td_cell ''Transfer-out'', td_cell ''10%'']"
  let ?g2 = "group_row [td_cell ''Graduation rates'']"
  have cache: "fst (cache_get Map.empty 0) = []" "snd (cache_get Map.empty 0) = 0"
    by (simp_all add: cache_get_def)
  have start: "snd (cache_get Map.empty 0) \<le> length ([] :: row list)"
    by (simp add: cache_get_def)
  have g: "is_subrow ?g" "row_matches (fst (cache_get Map.empty 0)) [''retention''] [] ?g"
    by code_simp+
  have g0: "find_cells TD ?g = td_cell ''Retention rates'' # []"
    by (simp add: example_eval)
  have rows1: "find_tr noted_table = [] @ ?g # [?n, ?d1, ?g2]"
    by (simp add: example_eval)
  have rows2: "find_tr grouped_table = [] @ [?g, ?d1, ?d2, ?d3, ?g2] @ []"
    by (simp add: example_eval)
  have ds: "\<not> is_subrow ?d1" "\<not> is_subrow ?d2" "\<not> is_subrow ?d3" "is_subrow ?g2"
    by code_simp+
  have others: "\<forall>r\<in>set ([] @ [?d1, ?d2, ?d3, ?g2] @ []).
                  \<not> row_matches (fst (cache_get Map.empty 0)) [''retention''] [] r"
    by code_simp
  have ev: "cell_value (td_cell ''Retention rates'') = ''Retention rates''"
    "concat (map (detail_of ''S'') (takeWhile (\<lambda>r. \<not> is_subrow r) [?n, ?d1, ?g2])) =
       [detail_entry ''S'' ''Full-time'' [''82%'']]"
    "scan_rows [] 0 [''retention''] [] ''S'' (Suc (length ([] :: row list))) [?n, ?d1, ?g2] = []"
    "detail_of ''S'' ?d1 = [detail_entry ''S'' ''Full-time'' [''82%'']]"
    "detail_of ''S'' ?d2 = [detail_entry ''S'' ''Part-time'' [''-'']]"
    "detail_of ''S'' ?d3 = [detail_entry ''S'' ''Transfer-out'' [''10%'']]"
    by code_simp+
  have blank: "Value (detail_entry ''S'' ''Part-time'' [''-'']) = ''blank''"
    by code_simp
  note inst = C7_group_and_detail_records
         [of noted_table "[]" ?g "[?n, ?d1, ?g2]" Map.empty 0 "[''retention'']" "[]"
             "td_cell ''Retention rates''" "[]" "''S''" ?d1 "td_cell ''Full-time''"
             "[td_cell ''82%'']" "''x''" grouped_table "[]" ?g ?d1 ?d2 ?d3 ?g2 "[]"
             "td_cell ''Retention rates''" "[]" "[]"]
  have "\<exists>A. scan_rows (fst (cache_get Map.empty 0)) (snd (cache_get Map.empty 0))
               [''retention''] [] ''S'' 0 (find_tr noted_table) =
          A @ (group_entry ''S'' (cell_value (td_cell ''Retention rates''))
               # concat (map (detail_of ''S'') (takeWhile (\<lambda>r. \<not> is_subrow r) [?n, ?d1, ?g2])))
            @ scan_rows (fst (cache_get Map.empty 0)) (snd (cache_get Map.empty 0))
                [''retention''] [] ''S'' (Suc (length ([] :: row list))) [?n, ?d1, ?g2]"
    by (rule inst [THEN conjunct1, THEN mp]) (intro conjI rows1 start g g0)
  then have 1: "\<exists>A. scan_rows [] 0 [''retention''] [] ''S'' 0 (find_tr noted_table) =
          A @ [group_entry ''S'' ''Retention rates'',
               detail_entry ''S'' ''Full-time'' [''82%'']]"
    unfolding cache ev by simp
  have "deep_search_in_table_static grouped_table 0 Map.empty [''retention''] [] ''S'' [] =
       (True, [] @ [search_separator ''S'', header_entry (fst (cache_get Map.empty 0)) ''S'',
                    group_entry ''S'' (cell_value (td_cell ''Retention rates''))]
              @ detail_of ''S'' ?d1 @ detail_of ''S'' ?d2 @ detail_of ''S'' ?d3)"
    by (rule inst [THEN conjunct2, THEN conjunct2, THEN conjunct2, THEN conjunct2,
                   THEN conjunct2, THEN conjunct2, THEN mp])
       (intro conjI rows2 start g g0 ds others)
  then have 2: "deep_search_in_table_static grouped_table 0 Map.empty [''retention''] [] ''S'' [] =
       (True, [search_separator ''S'', header_entry [] ''S'',
               group_entry ''S'' ''Retention rates'',
               detail_entry ''S'' ''Full-time'' [''82%''],
               detail_entry ''S'' ''Part-time'' [''-''],
               detail_entry ''S'' ''Transfer-out'' [''10%'']])"
    unfolding cache ev by simp
  from 1 2 blank show ?thesis by blast
qed

subsection \<open>TableRecordFormatter: year columns\<close>

lemma enumerate_by_index: "enumerate n xs = map (\<lambda>k. (n + k, xs ! k)) [0..<length xs]"
  by (rule nth_equalityI) (simp_all add: nth_enumerate_eq)

text \<open>
  C1. The year headers are the headers after the first that match the pattern, and
  \<^const>\<open>year_parts\<close> pairs the year header at position \<open>k\<close> of that list (counted from
  0) with the cell \<open>k + 1\<close> of the row, whatever column the header stands in. With the
  headers \<^verbatim>\<open>Category\<close>, \<^verbatim>\<open>2020-2021\<close>, \<^verbatim>\<open>2021-2022\<close> every year header is paired
  with its own column and the two rows of the example give the one record expected. With
  the headers \<^verbatim>\<open>Category\<close>, \<^verbatim>\<open>Total\<close>, \<^verbatim>\<open>2020-2021\<close> the year header stands in
  column 2 and is paired with the cell of column 1.
\<close>

theorem C1_year_header_paired_by_position:
  "year_parts year_headers r =
     concat (map (\<lambda>k. if Suc k < length r \<and> strip (r ! Suc k) \<noteq> []
                           \<and> strip (r ! Suc k) \<noteq> ''-''
                        then [year_headers ! k @ '': '' @ strip (r ! Suc k)] else [])
                 [0..<length year_headers])
   \<and> add_table_to_data_static [''Category'', ''2020-2021'', ''2021-2022'']
         [[''Retention rate'', ''82%'', ''85%''], [''Transfer rate'', ''-'', ''-'']]
         ''S'' ''src'' [] =
       [\<lparr>Category = ''Retention rate'', Value = ''2020-2021: 82%; 2021-2022: 85%'',
         Section = ''S'', Source = ''src (all years)''\<rparr>]
   \<and> add_table_to_data_static [''Category'', ''Total'', ''2020-2021'']
         [[''Retention rate'', ''100'', ''82%'']] ''S'' ''src'' [] =
       [\<lparr>Category = ''Retention rate'', Value = ''2020-2021: 100'',
         Section = ''S'', Source = ''src (all years)''\<rparr>]"
proof -
  have a: "year_parts year_headers r =
     concat (map (\<lambda>k. if Suc k < length r \<and> strip (r ! Suc k) \<noteq> []
                           \<and> strip (r ! Suc k) \<noteq> ''-''
                        then [year_headers ! k @ '': '' @ strip (r ! Suc k)] else [])
                 [0..<length year_headers])"
    unfolding year_parts_def enumerate_by_index
    by (auto simp: comp_def Let_def intro!: arg_cong [where f = concat])
  have b: "add_table_to_data_static [''Category'', ''2020-2021'', ''2021-2022'']
         [[''Retention rate'', ''82%'', ''85%''], [''Transfer rate'', ''-'', ''-'']]
         ''S'' ''src'' [] =
       [\<lparr>Category = ''Retention rate'', Value = ''2020-2021: 82%; 2021-2022: 85%'',
         Section = ''S'', Source = ''src (all years)''\<rparr>]"
    by code_simp
  have c: "add_table_to_data_static [''Category'', ''Total'', ''2020-2021'']
         [[''Retention rate'', ''100'', ''82%'']] ''S'' ''src'' [] =
       [\<lparr>Category = ''Retention rate'', Value = ''2020-2021: 100'',
         Section = ''S'', Source = ''src (all years)''\<rparr>]"
    by code_simp
  from a b c show ?thesis by (intro conjI)
qed

subsection \<open>MatchOrchestrator: graph discovery\<close>

lemma graph_match_none:
  assumes "\<forall>term\<in>set terms. \<not> (sublist (lower term) (graph_title_text w)
                               \<or> sublist (lower term) (graph_alt_text w)
                               \<or> sublist (lower term) (lower (strip (tbl_text w))))"
    and "\<not> (keyword_match_static (lower (strip (tbl_text w))) kws
            \<or> keyword_match_static (graph_title_text w) kws
            \<or> keyword_match_static (graph_alt_text w) kws)"
  shows "graph_match w terms kws = None"
proof -
  from assms(1)
  have "find (\<lambda>term. sublist (lower term) (graph_title_text w)
                   \<or> sublist (lower term) (graph_alt_text w)
                   \<or> sublist (lower term) (lower (strip (tbl_text w)))) terms = None"
    by (simp add: find_None_iff_set)
  with assms(2) show ?thesis
    by (simp add: graph_match_def Let_def)
qed

text \<open>
  C3. The definition of \<^verbatim>\<open>find_matching_graph_tables_static\<close> in force (line 822) has
  no test for a percent sign and none for a non-empty alt text: a widget none of whose
  title, alt and container texts holds a term, and which the keywords do not match, is not
  matched, whatever its alt text. For a widget whose only text is the alt text
  \<^verbatim>\<open>Graduation rate 55%\<close> and the term \<^verbatim>\<open>retention\<close> it records nothing, where the
  definition at line 664 records a \<^verbatim>\<open>percent_graph\<close> match; for the alt text
  \<^verbatim>\<open>Enrollment chart\<close> it records nothing, where the definition at line 664 records an
  \<^verbatim>\<open>any_graph_with_alt\<close> match.
\<close>

theorem C3_graph_discovery_in_force:
  "((\<forall>term\<in>set terms. \<not> (sublist (lower term) (graph_title_text w)
                          \<or> sublist (lower term) (graph_alt_text w)
                          \<or> sublist (lower term) (lower (strip (tbl_text w)))))
     \<and> \<not> (keyword_match_static (lower (strip (tbl_text w))) kws
           \<or> keyword_match_static (graph_title_text w) kws
           \<or> keyword_match_static (graph_alt_text w) kws) \<longrightarrow>
     graph_match w terms kws = None)
   \<and> find_matching_graph_tables_static empty_page [graph_widget ''Graduation rate 55%'']
        [''retention''] [] [] = []
   \<and> find_matching_graph_tables_static_line_664 empty_page
        [graph_widget ''Graduation rate 55%''] [''retention''] [] [] =
       [\<lparr>mi_index = 0, mi_element = graph_widget ''Graduation rate 55%'',
         mi_match_type = ''percent_graph'',
         mi_section = ''Unknown Section (No Titles Provided)''\<rparr>]
   \<and> find_matching_graph_tables_static empty_page [graph_widget ''Enrollment chart'']
        [''retention''] [] [] = []
   \<and> find_matching_graph_tables_static_line_664 empty_page
        [graph_widget ''Enrollment chart''] [''retention''] [] [] =
       [\<lparr>mi_index = 0, mi_element = graph_widget ''Enrollment chart'',
         mi_match_type = ''any_graph_with_alt'',
         mi_section = ''Unknown Section (No Titles Provided)''\<rparr>]"
proof -
  have a: "(\<forall>term\<in>set terms. \<not> (sublist (lower term) (graph_title_text w)
                          \<or> sublist (lower term) (graph_alt_text w)
                          \<or> sublist (lower term) (lower (strip (tbl_text w)))))
     \<and> \<not> (keyword_match_static (lower (strip (tbl_text w))) kws
           \<or> keyword_match_static (graph_title_text w) kws
           \<or> keyword_match_static (graph_alt_text w) kws) \<longrightarrow>
     graph_match w terms kws = None"
    using graph_match_none by blast
  have b: "find_matching_graph_tables_static empty_page [graph_widget ''Graduation rate 55%'']
        [''retention''] [] [] = []"
    by code_simp
  have c: "find_matching_graph_tables_static_line_664 empty_page
        [graph_widget ''Graduation rate 55%''] [''retention''] [] [] =
       [\<lparr>mi_index = 0, mi_element = graph_widget ''Graduation rate 55%'',
         mi_match_type = ''percent_graph'',
         mi_section = ''Unknown Section (No Titles Provided)''\<rparr>]"
    by code_simp
  have d: "find_matching_graph_tables_static empty_page [graph_widget ''Enrollment chart'']
        [''retention''] [] [] = []"
    by code_simp
  have e: "find_matching_graph_tables_static_line_664 empty_page
        [graph_widget ''Enrollment chart''] [''retention''] [] [] =
       [\<lparr>mi_index = 0, mi_element = graph_widget ''Enrollment chart'',
         mi_match_type = ''any_graph_with_alt'',
         mi_section = ''Unknown Section (No Titles Provided)''\<rparr>]"
    by code_simp
  from a b c d e show ?thesis by (intro conjI)
qed

theorem C3_witness:
  "graph_match (graph_widget ''Graduation rate 55%'') [''retention'', ''transfer'']
     [''retention'', ''rate''] = None
   \<and> graph_alt_text (graph_widget ''Graduation rate 55%'') = ''graduation rate 55%''"
proof -
  have t: "\<forall>term\<in>set [''retention'', ''transfer''].
             \<not> (sublist (lower term) (graph_title_text (graph_widget ''Graduation rate 55%''))
                \<or> sublist (lower term) (graph_alt_text (graph_widget ''Graduation rate 55%''))
                \<or> sublist (lower term)
                     (lower (strip (tbl_text (graph_widget ''Graduation rate 55%'')))))"
    by code_simp
  have k: "\<not> (keyword_match_static (lower (strip (tbl_text (graph_widget ''Graduation rate 55%''))))
                [''retention'', ''rate'']
            \<or> keyword_match_static (graph_title_text (graph_widget ''Graduation rate 55%''))
                [''retention'', ''rate'']
            \<or> keyword_match_static (graph_alt_text (graph_widget ''Graduation rate 55%''))
                [''retention'', ''rate''])"
    by code_simp
  have alt: "graph_alt_text (graph_widget ''Graduation rate 55%'') = ''graduation rate 55%''"
    by code_simp
  from C3_graph_discovery_in_force
         [of "[''retention'', ''transfer'']" "graph_widget ''Graduation rate 55%''"
             "[''retention'', ''rate'']"] t k
  have "graph_match (graph_widget ''Graduation rate 55%'') [''retention'', ''transfer'']
          [''retention'', ''rate''] = None"
    by blast
  with alt show ?thesis by simp
qed

subsection \<open>The dash as an absent value\<close>





lemma dash_to_empty_Nil: "dash_to_empty r = [] \<longleftrightarrow> r = []"
  by (cases r) (simp_all add: dash_to_empty_def)

lemma dash_to_empty_length: "length (dash_to_empty r) = length r"
  by (cases r) (simp_all add: dash_to_empty_def)

lemma dash_to_empty_first: "r \<noteq> [] \<Longrightarrow> dash_to_empty r ! 0 = r ! 0"
  by (cases r) (simp_all add: dash_to_empty_def)








end
